theory Spec2Isabelle
  imports Complex_Main "HOL-Library.Word" "HOL-Library.Log_Nat"
begin

unbundle bit_operations_syntax

section \<open>JavaScript numbers\<close>

text \<open>
  A JavaScript number is modelled as \<open>NaN\<close> or a real number. \<open>Math.log\<close>,
  \<open>Math.exp\<close>, \<open>Math.sqrt\<close> and \<open>Math.cos\<close> are the real functions they
  approximate, and the rounding of binary64 arithmetic on fractions is in general not
  modelled. The infinities and the sign of zero are left out: the engines divide by
  constants or by quantities they have checked to be positive, except in
  \<open>validateCashout\<close>, which is treated there. Two computations are different and are
  modelled with their binary64 rounding: the generator state, which holds integers beyond
  \<open>2^53\<close>, where rounding decides every later draw (on \<open>int\<close>, below), and the
  payout of a colour wager, where rounding decides the cent (\<open>binary64\<close>, below).
\<close>

datatype jsnum = NaN | Fin real

fun lift1 :: "(real \<Rightarrow> real) \<Rightarrow> jsnum \<Rightarrow> jsnum" where
  "lift1 f (Fin a) = Fin (f a)"
| "lift1 f NaN = NaN"

fun jmul :: "jsnum \<Rightarrow> jsnum \<Rightarrow> jsnum" where
  "jmul (Fin a) (Fin b) = Fin (a * b)"
| "jmul _ _ = NaN"

text \<open>\<open><\<close> and \<open>>\<close> are false as soon as one side is \<open>NaN\<close>.\<close>

fun jlt :: "jsnum \<Rightarrow> jsnum \<Rightarrow> bool" where
  "jlt (Fin a) (Fin b) = (a < b)"
| "jlt _ _ = False"

definition jgt :: "jsnum \<Rightarrow> jsnum \<Rightarrow> bool" where
  "jgt a b = jlt b a"

text \<open>\<open>Math.max\<close> and \<open>Math.min\<close> return \<open>NaN\<close> when an argument is \<open>NaN\<close>.\<close>

fun Math_max :: "jsnum \<Rightarrow> jsnum \<Rightarrow> jsnum" where
  "Math_max (Fin a) (Fin b) = Fin (max a b)"
| "Math_max _ _ = NaN"

fun Math_min :: "jsnum \<Rightarrow> jsnum \<Rightarrow> jsnum" where
  "Math_min (Fin a) (Fin b) = Fin (min a b)"
| "Math_min _ _ = NaN"

text \<open>\<open>Math.log 0\<close> is \<open>-Infinity\<close>, outside the model; no caller passes 0.\<close>

fun Math_log :: "jsnum \<Rightarrow> jsnum" where
  "Math_log (Fin x) = (if x < 0 then NaN else Fin (ln x))"
| "Math_log NaN = NaN"

fun Math_sqrt :: "jsnum \<Rightarrow> jsnum" where
  "Math_sqrt (Fin x) = (if x < 0 then NaN else Fin (sqrt x))"
| "Math_sqrt NaN = NaN"

definition Math_exp :: "jsnum \<Rightarrow> jsnum" where
  "Math_exp = lift1 exp"

definition Math_cos :: "jsnum \<Rightarrow> jsnum" where
  "Math_cos = lift1 cos"

text \<open>\<open>Math.round\<close> rounds halves up: \<open>floor (x + 0.5)\<close>.\<close>

definition Math_round :: "jsnum \<Rightarrow> jsnum" where
  "Math_round = lift1 (\<lambda>x. of_int \<lfloor>x + 1 / 2\<rfloor>)"

text \<open>
  \<open>parseFloat(x.toFixed(d))\<close>: the multiple of \<open>10^-d\<close> nearest to \<open>x\<close>, the one
  of larger magnitude on a tie (\<open>toFixed\<close> negates a negative \<open>x\<close> first and picks the
  larger \<open>n\<close>). From \<open>10^21\<close> on, \<open>toFixed\<close> prints the number itself.
\<close>

definition toFixed :: "nat \<Rightarrow> real \<Rightarrow> real" where
  "toFixed d x =
     (if \<bar>x\<bar> \<ge> 10 ^ 21 then x
      else sgn x * (of_int \<lfloor>\<bar>x\<bar> * 10 ^ d + 1 / 2\<rfloor> / 10 ^ d))"

definition parseFloat_toFixed :: "nat \<Rightarrow> jsnum \<Rightarrow> jsnum" where
  "parseFloat_toFixed d = lift1 (toFixed d)"

text \<open>
  \<open>binary64 x\<close> is the binary64 number nearest to the real \<open>x\<close>, the result of an
  arithmetic operation whose exact result is \<open>x\<close>: a multiple of the unit in the last place
  \<open>2^(e - 52)\<close>, where \<open>2^e \<le> |x| < 2^(e + 1)\<close>, and on a tie the even multiple. The
  exponent range is not modelled (no overflow, no subnormal numbers): the amounts of the
  colour game lie between 0.05 and 1.5 million in magnitude, or are 0.
\<close>

definition pow2 :: "int \<Rightarrow> real" where
  "pow2 e = (if 0 \<le> e then 2 ^ nat e else 1 / 2 ^ nat (- e))"

definition round_half_even :: "real \<Rightarrow> int" where
  "round_half_even n =
     (let k = \<lfloor>n\<rfloor>
      in if n - of_int k < 1 / 2 \<or> (n - of_int k = 1 / 2 \<and> even k) then k else k + 1)"

definition binary64 :: "real \<Rightarrow> real" where
  "binary64 x =
     (if x = 0 then 0
      else (let ulp = pow2 (\<lfloor>log 2 \<bar>x\<bar>\<rfloor> - 52)
            in sgn x * (of_int (round_half_even (\<bar>x\<bar> / ulp)) * ulp)))"

section \<open>The linear congruential generator\<close>

text \<open>
  \<open>createDeterministicPRNG\<close> and \<open>createColorPRNG\<close> are the same closure over
  \<open>currentSeed\<close>; the model passes that state explicitly. The state is an integer held in
  a binary64: the product \<open>MULTIPLIER * currentSeed\<close> and the sum with \<open>INCREMENT\<close>
  are each rounded to 53 significant bits (nearest, ties to even; \<open>bitlen\<close> is the
  number of binary digits), and \<open>%\<close> is exact and takes the sign of the dividend.
\<close>

definition dbl_round :: "int \<Rightarrow> int" where
  "dbl_round x =
     (let a = \<bar>x\<bar>; e = nat (bitlen a - 53); q = a div 2 ^ e; r = a mod 2 ^ e
      in if bitlen a \<le> 53 then x
         else sgn x * ((if 2 * r > 2 ^ e \<or> (2 * r = 2 ^ e \<and> odd q) then q + 1 else q) * 2 ^ e))"

definition js_rem :: "int \<Rightarrow> int \<Rightarrow> int" where
  "js_rem x m = sgn x * (\<bar>x\<bar> mod \<bar>m\<bar>)"

definition MODULUS :: int where
  "MODULUS = 2 ^ 31"

definition lcg_next :: "int \<Rightarrow> int" where
  "lcg_next currentSeed = js_rem (dbl_round (dbl_round (1103515245 * currentSeed) + 12345)) MODULUS"

text \<open>One call of the closure: the value returned and the new state.\<close>

definition prng :: "int \<Rightarrow> real \<times> int" where
  "prng currentSeed = (let s = lcg_next currentSeed in (real_of_int s / real_of_int MODULUS, s))"

section \<open>Seed derivation\<close>

text \<open>
  \<open>hashString\<close>: \<open>hash & hash\<close> brings the sum back to a signed 32-bit integer, so the
  loop runs on \<open>32 word\<close>; \<open>Math.abs\<close> is taken of the signed reading. A string is a
  list of 8-bit code units here.
\<close>

fun hashString_loop :: "string \<Rightarrow> 32 word \<Rightarrow> 32 word" where
  "hashString_loop [] hash = hash"
| "hashString_loop (c # cs) hash = hashString_loop cs ((push_bit 5 hash - hash) + of_char c)"

definition hashString :: "string \<Rightarrow> int" where
  "hashString str = \<bar>sint (hashString_loop str 0)\<bar>"

text \<open>\<open>baseSeed ^ seedHash\<close>: both operands go through ToInt32, the result is signed.\<close>

definition xor32 :: "int \<Rightarrow> int \<Rightarrow> int" where
  "xor32 a b = sint ((word_of_int a :: 32 word) XOR word_of_int b)"

section \<open>The crash engine\<close>

record point =
  time :: jsnum
  multiplier :: jsnum

record crash_options =
  opt_lossBias :: "jsnum option"
  opt_maxWinMultiplier :: "jsnum option"
  opt_roundId :: "string option"
  opt_customSeed :: "int option"

record crash_metadata =
  md_lossBias :: jsnum
  md_maxWinMultiplier :: jsnum
  md_roundId :: string

record crash_result =
  crashMultiplier :: jsnum
  roundType :: string
  isLossRound :: bool
  gameDuration :: jsnum
  crashCurve :: "point list"
  seed :: int
  generatedAt :: nat
  metadata :: crash_metadata

datatype error = Error string | TypeError string

text \<open>The two readings of the clock a generator call can make, in milliseconds.\<close>

record clock =
  Date_now :: nat
  new_Date :: nat

definition SEED :: int where
  "SEED = 2882343476"

definition MAX_GAME_DURATION :: real where
  "MAX_GAME_DURATION = 60000"

definition points :: nat where
  "points = 100"

fun digits :: "nat \<Rightarrow> string" where
  "digits n = (if n < 10 then [char_of (48 + n)] else digits (n div 10) @ [char_of (48 + n mod 10)])"

declare digits.simps [simp del]

definition generateNormalDistribution :: "int \<Rightarrow> jsnum \<times> int" where
  "generateNormalDistribution st =
     (let (a, st1) = prng st;
          u1 = 1 - a;
          (u2, st2) = prng st1;
          z0 = jmul (Math_sqrt (lift1 (\<lambda>l. - 2 * l) (Math_log (Fin u1))))
                    (Math_cos (Fin (2 * pi * u2)))
      in (z0, st2))"

definition generateLossMultiplier :: "int \<Rightarrow> jsnum \<times> int" where
  "generateLossMultiplier st =
     (let (normalValue, st1) = generateNormalDistribution st;
          multiplier = lift1 (\<lambda>z. 13 / 10 + z * (2 / 10)) normalValue;
          multiplier = Math_max multiplier (Fin (11 / 10));
          multiplier = Math_min multiplier (Fin 2)
      in (multiplier, st1))"

definition generateWinMultiplier :: "int \<Rightarrow> jsnum \<Rightarrow> jsnum \<times> int" where
  "generateWinMultiplier st maxWinMultiplier =
     (let minWin = 2;
          (randomValue, st1) = prng st;
          exponentialFactor = Math_log (lift1 (\<lambda>m. m / minWin) maxWinMultiplier);
          multiplier = lift1 (\<lambda>e. minWin * e) (Math_exp (lift1 (\<lambda>f. randomValue * f) exponentialFactor))
      in (Math_min multiplier maxWinMultiplier, st1))"

text \<open>One iteration of the loop of \<open>generateCrashCurve\<close>, on the curve built so far and
  the generator state.\<close>

definition curve_step :: "jsnum \<Rightarrow> jsnum \<Rightarrow> nat \<Rightarrow> point list \<times> int \<Rightarrow> point list \<times> int" where
  "curve_step crashMult duration i cs =
     (let (curve, st) = cs;
          growthFactor = lift1 (\<lambda>l. l / (real points - 1)) (Math_log crashMult);
          progress = real i / (real points - 1);
          tm = lift1 (\<lambda>d. d * progress) duration;
          m0 = Math_exp (lift1 (\<lambda>g. g * real i) growthFactor);
          (m1, st1) = (if i > 10 \<and> i < points - 10
                       then (let (p, st') = prng st
                             in (lift1 (\<lambda>m. m + (p - 1 / 2) * (2 / 100) * m) m0, st'))
                       else (m0, st));
          m2 = (if i > 0 then Math_max m1 (lift1 (\<lambda>c. c * (999 / 1000)) (multiplier (curve ! (i - 1))))
                else m1);
          m3 = Math_min m2 crashMult
      in (curve @ [\<lparr>time = Math_round tm, multiplier = parseFloat_toFixed 4 m3\<rparr>], st1))"

definition generateCrashCurve :: "jsnum \<Rightarrow> jsnum \<Rightarrow> int \<Rightarrow> point list" where
  "generateCrashCurve crashMult duration st =
     (let curve = fst (fold (curve_step crashMult duration) [0..<points] ([], st))
      in if length curve > 0
         then curve[length curve - 1 := (curve ! (length curve - 1))\<lparr>multiplier := crashMult\<rparr>]
         else curve)"

definition calculateGameDuration :: "jsnum \<Rightarrow> jsnum" where
  "calculateGameDuration m =
     (let baseDuration = lift1 (\<lambda>l. l * 5000) (Math_log m);
          duration = Math_min (jmul baseDuration
                                 (lift1 (\<lambda>l. 8 / 10 + l * (2 / 10)) (Math_log (lift1 (\<lambda>x. x + 1) m))))
                              (Fin MAX_GAME_DURATION)
      in Math_round duration)"

definition generateCrashMultiplier :: "clock \<Rightarrow> crash_options \<Rightarrow> error + crash_result" where
  "generateCrashMultiplier clk options =
     (let lossBias = (case opt_lossBias options of None \<Rightarrow> Fin (8 / 10) | Some b \<Rightarrow> b);
          maxWinMultiplier = (case opt_maxWinMultiplier options of None \<Rightarrow> Fin 100 | Some m \<Rightarrow> m);
          roundId = (case opt_roundId options of None \<Rightarrow> digits (Date_now clk) | Some r \<Rightarrow> r);
          customSeed = opt_customSeed options
      in if jlt lossBias (Fin 0) \<or> jgt lossBias (Fin 1)
         then Inl (Error ''lossBias must be between 0 and 1'')
         else if jlt maxWinMultiplier (Fin 1)
         then Inl (Error ''maxWinMultiplier must be at least 1'')
         else
           (let seedHash = hashString roundId;
                baseSeed = (case customSeed of Some c \<Rightarrow> c | None \<Rightarrow> SEED);
                finalSeed = xor32 baseSeed seedHash;
                (u, st1) = prng finalSeed;
                isLoss = jlt (Fin u) lossBias;
                (crashMult, st2) = (if isLoss then generateLossMultiplier st1
                                    else generateWinMultiplier st1 maxWinMultiplier);
                duration = calculateGameDuration crashMult;
                curve = generateCrashCurve crashMult duration st2
            in Inr \<lparr>crashMultiplier = parseFloat_toFixed 4 crashMult,
                    roundType = (if isLoss then ''loss'' else ''win''),
                    isLossRound = isLoss,
                    gameDuration = duration,
                    crashCurve = curve,
                    seed = finalSeed,
                    generatedAt = new_Date clk,
                    metadata = \<lparr>md_lossBias = lossBias, md_maxWinMultiplier = maxWinMultiplier,
                                md_roundId = roundId\<rparr>\<rparr>))"

text \<open>\<open>validateCashout\<close>. The quotient is the only division by a variable. With
  \<open>crashMultiplier = 0\<close> the guard leaves a negative \<open>cashoutMultiplier\<close>, the quotient is
  \<open>-Infinity\<close> and the effective time is \<open>-Infinity\<close>, \<open>NaN\<close> or \<open>+Infinity\<close> as
  \<open>gameDuration\<close> is positive, zero or negative (the delay is finite), so the comparison
  holds exactly when \<open>gameDuration\<close> is positive.\<close>

definition validateCashout :: "real \<Rightarrow> real \<Rightarrow> real \<Rightarrow> real \<Rightarrow> bool" where
  "validateCashout cashoutMultiplier crashMult cashoutDelay gameDur =
     (if cashoutMultiplier \<ge> crashMult then False
      else if crashMult = 0 then 0 < gameDur
      else
        (let cashoutTime = (cashoutMultiplier / crashMult) * gameDur;
             effectiveCashoutTime = cashoutTime + cashoutDelay;
             crashTime = gameDur
         in effectiveCashoutTime < crashTime))"

definition calculateProfit :: "real \<Rightarrow> real \<Rightarrow> real" where
  "calculateProfit betAmount cashoutMultiplier =
     (let payout = betAmount * cashoutMultiplier;
          profit = payout - betAmount
      in toFixed 2 profit)"

section \<open>The colour engine\<close>

record color_props =
  cp_name :: string
  cp_payoutMultiplier :: real
  cp_hexColor :: string
  cp_probability :: real

text \<open>\<open>COLOR_GAME_CONFIG.COLOR_PROPERTIES\<close>, in the order of its keys. A read at a key
  that is not configured yields \<open>undefined\<close> (\<open>None\<close>); the keys every object inherits
  (\<open>constructor\<close>, \<open>toString\<close>, ...) are outside the model.\<close>

definition COLOR_PROPERTIES :: "(string \<times> color_props) list" where
  "COLOR_PROPERTIES =
     [(''red'', \<lparr>cp_name = ''Red'', cp_payoutMultiplier = 2, cp_hexColor = ''#EF4444'',
                 cp_probability = 40 / 100\<rparr>),
      (''green'', \<lparr>cp_name = ''Green'', cp_payoutMultiplier = 3, cp_hexColor = ''#10B981'',
                   cp_probability = 35 / 100\<rparr>),
      (''violet'', \<lparr>cp_name = ''Violet'', cp_payoutMultiplier = 14, cp_hexColor = ''#8B5CF6'',
                    cp_probability = 25 / 100\<rparr>)]"

definition MIN_BET_AMOUNT :: real where "MIN_BET_AMOUNT = 1"
definition MAX_BET_AMOUNT :: real where "MAX_BET_AMOUNT = 100000"
definition LOSS_BIAS :: real where "LOSS_BIAS = 65 / 100"
definition MAX_WIN_CAP :: real where "MAX_WIN_CAP = 10000"
definition HOUSE_EDGE :: real where "HOUSE_EDGE = binary64 (5 / 100)"
definition MAX_CONSECUTIVE_WINS :: nat where "MAX_CONSECUTIVE_WINS = 3"

text \<open>\<open>HOUSE_EDGE\<close> enters the binary64 computation of the payout, so it is the binary64
  number that the literal \<open>0.05\<close> denotes, a little above one twentieth.\<close>

text \<open>An array read: \<open>undefined\<close> outside the array, also at a negative index.\<close>

definition nth_opt :: "'a list \<Rightarrow> int \<Rightarrow> 'a option" where
  "nth_opt xs i = (if 0 \<le> i \<and> i < int (length xs) then Some (xs ! nat i) else None)"

text \<open>Reading a field of the properties of a colour throws a \<open>TypeError\<close> when
  the colour is \<open>undefined\<close> or not configured.\<close>

definition undefined_props :: error where
  "undefined_props = TypeError ''Cannot read properties of undefined''"

record color_options =
  co_roundId :: "string option"
  co_lossBias :: "jsnum option"
  co_customSeed :: "int option"
  co_recentWinners :: "string list option"

record color_metadata =
  cm_roundId :: string
  cm_lossBias :: jsnum
  cm_probability :: real

record color_result =
  winningColor :: string
  colorName :: string
  hexColor :: string
  payoutMultiplier :: real
  isWinRound :: bool
  isPlatformWin :: bool
  color_seed :: int
  color_generatedAt :: nat
  color_metadata :: color_metadata

text \<open>The loop of \<open>selectColorByProbability\<close>; \<open>Inr None\<close> when it falls through.\<close>

fun selectColor_loop :: "string list \<Rightarrow> real \<Rightarrow> real \<Rightarrow> error + string option" where
  "selectColor_loop [] randomValue cumulativeProbability = Inr None"
| "selectColor_loop (color # rest) randomValue cumulativeProbability =
     (case map_of COLOR_PROPERTIES color of
        None \<Rightarrow> Inl undefined_props
      | Some props \<Rightarrow>
          (let cumulativeProbability = cumulativeProbability + cp_probability props
           in if randomValue \<le> cumulativeProbability then Inr (Some color)
              else selectColor_loop rest randomValue cumulativeProbability))"

text \<open>The selection functions are the last users of their generator, so the models return
  the colour only.\<close>

definition selectColorByProbability :: "string list \<Rightarrow> int \<Rightarrow> error + string option" where
  "selectColorByProbability colors st =
     (let (randomValue, st1) = prng st
      in case selectColor_loop colors randomValue 0 of
           Inl e \<Rightarrow> Inl e
         | Inr (Some color) \<Rightarrow> Inr (Some color)
         | Inr None \<Rightarrow> Inr (nth_opt colors 0))"

definition countConsecutiveWins :: "string \<Rightarrow> string list \<Rightarrow> nat" where
  "countConsecutiveWins color recentWinners =
     length (takeWhile (\<lambda>w. w = color) (rev recentWinners))"

definition selectWinningColor :: "int \<Rightarrow> string list \<Rightarrow> error + string option" where
  "selectWinningColor st recentWinners =
     (let colors = map fst COLOR_PROPERTIES
      in if length recentWinners \<ge> MAX_CONSECUTIVE_WINS
         then (let lastColor = recentWinners ! (length recentWinners - 1);
                   streakCount = countConsecutiveWins lastColor recentWinners
               in if streakCount \<ge> MAX_CONSECUTIVE_WINS
                  then (let otherColors = filter (\<lambda>color. color \<noteq> lastColor) colors
                        in selectColorByProbability otherColors st)
                  else selectColorByProbability colors st)
         else selectColorByProbability colors st)"

text \<open>\<open>findLeastRecentColor\<close>: the \<open>Map\<close> of last indices, then the scan for the smallest.
  A comparison with \<open>undefined\<close> is false.\<close>

definition lastIndexMap :: "string list \<Rightarrow> string list \<Rightarrow> (string \<rightharpoonup> int)" where
  "lastIndexMap colors recentWinners =
     fold (\<lambda>(index, color) m. m(color \<mapsto> int index)) (enumerate 0 recentWinners)
       (fold (\<lambda>color m. m(color \<mapsto> - 1)) colors Map.empty)"

fun lt_undef :: "int option \<Rightarrow> int option \<Rightarrow> bool" where
  "lt_undef (Some a) (Some b) = (a < b)"
| "lt_undef _ _ = False"

definition findLeastRecentColor :: "string list \<Rightarrow> string list \<Rightarrow> string option" where
  "findLeastRecentColor colors recentWinners =
     (if length recentWinners = 0 then None
      else case colors of
             [] \<Rightarrow> None
           | c0 # _ \<Rightarrow>
               (let m = lastIndexMap colors recentWinners
                in Some (fst (fold (\<lambda>color (leastRecentColor, smallestIndex).
                                      if lt_undef (m color) smallestIndex then (color, m color)
                                      else (leastRecentColor, smallestIndex))
                                   colors (c0, m c0)))))"

definition truthy :: "string option \<Rightarrow> bool" where
  "truthy v = (v \<noteq> None \<and> v \<noteq> Some [])"

definition weightedColors :: "string list" where
  "weightedColors =
     concat (map (\<lambda>(color, props). replicate (nat \<lfloor>cp_payoutMultiplier props * 10\<rfloor>) color)
                 COLOR_PROPERTIES)"

definition selectLosingColor_fallback :: "int \<Rightarrow> string option" where
  "selectLosingColor_fallback st =
     (let (u, st1) = prng st;
          randomIndex = \<lfloor>u * real (length weightedColors)\<rfloor>
      in nth_opt weightedColors randomIndex)"

definition selectLosingColor :: "int \<Rightarrow> string list \<Rightarrow> string option" where
  "selectLosingColor st recentWinners =
     (let colors = map fst COLOR_PROPERTIES
      in if length recentWinners > 0
         then (let leastRecentColor = findLeastRecentColor colors recentWinners
               in if truthy leastRecentColor
                  then (let (u, st1) = prng st
                        in if u < 7 / 10 then leastRecentColor else selectLosingColor_fallback st1)
                  else selectLosingColor_fallback st)
         else selectLosingColor_fallback st)"

text \<open>\<open>generateWinningColor\<close>. The literal of \<open>COLOR_GAME_CONFIG.BASE_SEED\<close> in the source,
  \<open>0xCOLOR1234\<close>, is not a number; the constant is a parameter of the model.\<close>

definition generateWinningColor :: "int \<Rightarrow> clock \<Rightarrow> color_options \<Rightarrow> error + color_result" where
  "generateWinningColor BASE_SEED clk options =
     (let roundId = (case co_roundId options of None \<Rightarrow> digits (Date_now clk) | Some r \<Rightarrow> r);
          lossBias = (case co_lossBias options of None \<Rightarrow> Fin LOSS_BIAS | Some b \<Rightarrow> b);
          customSeed = co_customSeed options;
          recentWinners = (case co_recentWinners options of None \<Rightarrow> [] | Some ws \<Rightarrow> ws)
      in if jlt lossBias (Fin 0) \<or> jgt lossBias (Fin 1)
         then Inl (Error ''lossBias must be between 0 and 1'')
         else
           (let seedHash = hashString roundId;
                baseSeed = (case customSeed of Some c \<Rightarrow> c | None \<Rightarrow> BASE_SEED);
                finalSeed = xor32 baseSeed seedHash;
                (u, st1) = prng finalSeed;
                platformWin = jlt (Fin u) lossBias;
                selected = (if platformWin then Inr (selectLosingColor st1 recentWinners)
                            else selectWinningColor st1 recentWinners)
            in case selected of
                 Inl e \<Rightarrow> Inl e
               | Inr None \<Rightarrow> Inl undefined_props
               | Inr (Some wc) \<Rightarrow>
                   (case map_of COLOR_PROPERTIES wc of
                      None \<Rightarrow> Inl undefined_props
                    | Some colorProps \<Rightarrow>
                        Inr \<lparr>winningColor = wc,
                             colorName = cp_name colorProps,
                             hexColor = cp_hexColor colorProps,
                             payoutMultiplier = cp_payoutMultiplier colorProps,
                             isWinRound = (\<not> platformWin),
                             isPlatformWin = platformWin,
                             color_seed = finalSeed,
                             color_generatedAt = new_Date clk,
                             color_metadata = \<lparr>cm_roundId = roundId, cm_lossBias = lossBias,
                                               cm_probability = cp_probability colorProps\<rparr>\<rparr>)))"

record betData =
  bet_color :: string
  bet_amount :: real

record payout_result =
  isWin :: bool
  po_winningColor :: string
  betColor :: string
  betAmount :: real
  payout :: real
  profit :: real
  po_payoutMultiplier :: real
  houseEdge :: real
  isCapped :: bool

text \<open>\<open>calculateColorPayout\<close>, in binary64: every product, sum and difference is rounded,
  and \<open>parseFloat(x.toFixed(2))\<close> is the binary64 number nearest to the two-decimal figure
  \<open>toFixed\<close> prints for the exact value of \<open>x\<close>. The stake is a binary64 number.\<close>

definition calculateColorPayout :: "betData \<Rightarrow> string \<Rightarrow> error + payout_result" where
  "calculateColorPayout bet wc =
     (let color = bet_color bet; amount = bet_amount bet
      in if amount < MIN_BET_AMOUNT then Inl (Error ''Bet amount must be at least 1'')
         else if amount > MAX_BET_AMOUNT then Inl (Error ''Bet amount cannot exceed 100000'')
         else
           (let win = (color = wc)
            in case map_of COLOR_PROPERTIES wc of
                 None \<Rightarrow> Inl undefined_props
               | Some colorProps \<Rightarrow>
                   (let (payout0, profit0) =
                          (if win
                           then (let basePayout = binary64 (amount * cp_payoutMultiplier colorProps);
                                     houseEdgeDeduction = binary64 (basePayout * HOUSE_EDGE);
                                     p = binary64 (basePayout - houseEdgeDeduction);
                                     p = (if binary64 (p - amount) > MAX_WIN_CAP
                                          then binary64 (amount + MAX_WIN_CAP) else p)
                                 in (p, binary64 (p - amount)))
                           else (0, - amount));
                        payout1 = binary64 (toFixed 2 payout0);
                        profit1 = binary64 (toFixed 2 profit0)
                    in Inr \<lparr>isWin = win, po_winningColor = wc, betColor = color,
                            betAmount = amount, payout = payout1, profit = profit1,
                            po_payoutMultiplier = cp_payoutMultiplier colorProps,
                            houseEdge = HOUSE_EDGE,
                            isCapped = (profit1 = MAX_WIN_CAP)\<rparr>)))"

record timeline_entry =
  tl_time :: int
  tl_color :: string
  tl_colorName :: string
  tl_hexColor :: string
  isRevealPhase :: bool
  revealProgress :: real

text \<open>One iteration of the loop of \<open>generateColorTimeline\<close>.\<close>

definition timeline_step ::
  "string \<Rightarrow> int \<Rightarrow> int \<Rightarrow> nat \<Rightarrow> timeline_entry list \<times> int \<Rightarrow> error + timeline_entry list \<times> int" where
  "timeline_step wc totalSteps revealStartStep step ts =
     (let (timeline, st) = ts;
          colors = map fst COLOR_PROPERTIES;
          interval = 200;
          tm = int step * interval;
          (displayColor, st') =
             (if int step < revealStartStep
              then (let (u, st1) = prng st;
                        randomIndex = \<lfloor>u * real (length colors)\<rfloor>
                    in (nth_opt colors randomIndex, st1))
              else (let rp = real_of_int (int step - revealStartStep)
                               / real_of_int (totalSteps - revealStartStep);
                        winningProbability = 3 / 10 + rp * (7 / 10);
                        (u, st1) = prng st
                    in if u < winningProbability then (Some wc, st1)
                       else (let (u2, st2) = prng st1
                             in (nth_opt colors \<lfloor>u2 * real (length colors)\<rfloor>, st2))))
      in case displayColor of
           None \<Rightarrow> Inl undefined_props
         | Some dc \<Rightarrow>
             (case map_of COLOR_PROPERTIES dc of
                None \<Rightarrow> Inl undefined_props
              | Some props \<Rightarrow>
                  Inr (timeline @
                         [\<lparr>tl_time = tm, tl_color = dc,
                           tl_colorName = cp_name props, tl_hexColor = cp_hexColor props,
                           isRevealPhase = (int step \<ge> revealStartStep),
                           revealProgress =
                             (if int step \<ge> revealStartStep
                              then real_of_int (int step - revealStartStep)
                                     / real_of_int (totalSteps - revealStartStep)
                              else 0)\<rparr>],
                       st')))"

text \<open>A loop whose body can throw: the first error ends it.\<close>

fun fold_err :: "('a \<Rightarrow> 's \<Rightarrow> error + 's) \<Rightarrow> 'a list \<Rightarrow> 's \<Rightarrow> error + 's" where
  "fold_err f [] s = Inr s"
| "fold_err f (x # xs) s = (case f x s of Inl e \<Rightarrow> Inl e | Inr s' \<Rightarrow> fold_err f xs s')"

definition generateColorTimeline :: "string \<Rightarrow> real \<Rightarrow> int \<Rightarrow> error + timeline_entry list" where
  "generateColorTimeline wc roundDuration st =
     (let interval = 200;
          totalSteps = \<lfloor>roundDuration / interval\<rfloor>;
          revealStartStep = \<lfloor>real_of_int totalSteps * (8 / 10)\<rfloor>
      in case fold_err (timeline_step wc totalSteps revealStartStep) [0..<nat totalSteps] ([], st) of
           Inl e \<Rightarrow> Inl e
         | Inr (timeline, st') \<Rightarrow>
             (if length timeline > 0
              then (case map_of COLOR_PROPERTIES wc of
                      None \<Rightarrow> Inl undefined_props
                    | Some props \<Rightarrow>
                        Inr (timeline[length timeline - 1 :=
                               (timeline ! (length timeline - 1))
                                 \<lparr>tl_color := wc, tl_colorName := cp_name props,
                                  tl_hexColor := cp_hexColor props, isRevealPhase := True,
                                  revealProgress := 1\<rparr>]))
              else Inr timeline))"

section \<open>The game controller\<close>

record cashoutData =
  cd_cashoutMultiplier :: real
  cd_crashMultiplier :: real
  cd_cashoutDelay :: "real option"
  cd_gameDuration :: "real option"
  cd_betAmount :: "real option"

record cashout_result =
  success :: bool
  isValid :: bool
  cashout_profit :: real
  message :: string

text \<open>\<open>GameController.validateCrashCashout\<close>. \<open>betAmount || 0\<close> and
  \<open>-betAmount || 0\<close> are \<open>0\<close> for a missing amount; nothing throws on numbers.\<close>

definition validateCrashCashout :: "cashoutData \<Rightarrow> cashout_result" where
  "validateCrashCashout cd =
     (let cashoutMultiplier = cd_cashoutMultiplier cd;
          crashMult = cd_crashMultiplier cd;
          cashoutDelay = (case cd_cashoutDelay cd of None \<Rightarrow> 100 | Some d \<Rightarrow> d);
          gameDur = (case cd_gameDuration cd of None \<Rightarrow> 10000 | Some g \<Rightarrow> g);
          valid = validateCashout cashoutMultiplier crashMult cashoutDelay gameDur;
          p = (if valid
               then calculateProfit (case cd_betAmount cd of None \<Rightarrow> 0 | Some b \<Rightarrow> b) cashoutMultiplier
               else (case cd_betAmount cd of None \<Rightarrow> 0 | Some b \<Rightarrow> - b))
      in \<lparr>success = True, isValid = valid, cashout_profit = p,
          message = (if valid then ''Cashout successful''
                     else ''Cashout failed - crashed before cashout'')\<rparr>)"

record color_bet =
  betId :: string
  cb_color :: string
  cb_amount :: real
  cb_roundId :: string
  placedAt :: nat
  cb_state :: string
  cb_result :: "string option"
  cb_payout :: "real option"
  cb_profit :: "real option"
  processedAt :: "nat option"

record color_statistics =
  cs_totalBets :: nat
  cs_totalWagered :: real
  cs_totalPayout :: real
  redBets :: nat
  greenBets :: nat
  violetBets :: nat

record color_round =
  cr_roundId :: string
  cr_state :: string
  cr_winningColor :: string
  cr_isWinRound :: bool
  roundDuration :: real
  bets :: "color_bet list"
  cr_statistics :: color_statistics

text \<open>The \<open>forEach\<close> of \<open>processColorRoundPayouts\<close>. It updates each bet in place and
  has no handler: when \<open>calculateColorPayout\<close> throws, the bets settled so far keep their
  results, the others are untouched and the error leaves the function. \<open>now i\<close> is the
  clock reading at the \<open>i\<close>-th bet. The running total of the payouts is a binary64 sum.\<close>

fun settle_bets ::
  "(nat \<Rightarrow> nat) \<Rightarrow> string \<Rightarrow> nat \<Rightarrow> color_bet list \<Rightarrow> real \<Rightarrow> error option \<times> color_bet list \<times> real" where
  "settle_bets now wc i [] totalPayout = (None, [], totalPayout)"
| "settle_bets now wc i (bet # rest) totalPayout =
     (case calculateColorPayout \<lparr>bet_color = cb_color bet, bet_amount = cb_amount bet\<rparr> wc of
        Inl e \<Rightarrow> (Some e, bet # rest, totalPayout)
      | Inr payoutResult \<Rightarrow>
          (let bet' = bet\<lparr>cb_result := Some (if isWin payoutResult then ''win'' else ''loss''),
                          cb_payout := Some (payout payoutResult),
                          cb_profit := Some (profit payoutResult),
                          processedAt := Some (now i)\<rparr>;
               totalPayout = (if isWin payoutResult
                              then binary64 (totalPayout + payout payoutResult)
                              else totalPayout);
               (err, rest', total') = settle_bets now wc (Suc i) rest totalPayout
           in (err, bet' # rest', total')))"

definition processColorRoundPayouts :: "(nat \<Rightarrow> nat) \<Rightarrow> color_round \<Rightarrow> error option \<times> color_round" where
  "processColorRoundPayouts now rnd =
     (if length (bets rnd) = 0 then (None, rnd)
      else
        (let (err, bets', totalPayout) = settle_bets now (cr_winningColor rnd) 0 (bets rnd) 0
         in case err of
              Some e \<Rightarrow> (Some e, rnd\<lparr>bets := bets'\<rparr>)
            | None \<Rightarrow>
                (None, rnd\<lparr>bets := bets',
                              cr_statistics := (cr_statistics rnd)\<lparr>cs_totalPayout := totalPayout\<rparr>\<rparr>)))"

section \<open>The round lifecycle\<close>

datatype round_state = IDLE | RUNNING | CRASHED | COMPLETED

record round_statistics =
  totalPlayers :: real
  totalBets :: real
  totalWagered :: real
  totalPayout :: real
  highestBet :: real
  highestWin :: real
  playersCashedOut :: real
  playersCrashed :: real
  winRate :: "real option"
  crashRate :: "real option"
  stat_houseEdge :: "real option"

record Round =
  r_roundId :: string
  r_lossBias :: jsnum
  r_maxWinMultiplier :: jsnum
  state :: round_state
  startedAt :: "nat option"
  endedAt :: "nat option"
  r_crashMultiplier :: "jsnum option"
  r_roundType :: "string option"
  r_crashCurve :: "point list"
  r_gameDuration :: jsnum
  r_generatedAt :: "nat option"
  crashedAt :: "nat option"
  statistics :: round_statistics
  r_seed :: "int option"

text \<open>\<open>start\<close>, \<open>end\<close> and \<open>complete\<close> return the success flag and the round as the call
  leaves it. \<open>t\<close> is the reading of the clock for the timestamps of the round.\<close>

definition Round_start :: "clock \<Rightarrow> nat \<Rightarrow> Round \<Rightarrow> bool \<times> Round" where
  "Round_start clk t r =
     (if state r \<noteq> IDLE then (False, r)
      else
        (case generateCrashMultiplier clk
                \<lparr>opt_lossBias = Some (r_lossBias r),
                 opt_maxWinMultiplier = Some (r_maxWinMultiplier r),
                 opt_roundId = Some (r_roundId r), opt_customSeed = None\<rparr> of
           Inl e \<Rightarrow> (False, r)
         | Inr gameResult \<Rightarrow>
             (True, r\<lparr>r_crashMultiplier := Some (crashMultiplier gameResult),
                      r_roundType := Some (roundType gameResult),
                      r_crashCurve := crashCurve gameResult,
                      r_gameDuration := gameDuration gameResult,
                      r_seed := Some (seed gameResult),
                      r_generatedAt := Some (generatedAt gameResult),
                      state := RUNNING,
                      startedAt := Some t\<rparr>)))"

definition Round_end :: "nat \<Rightarrow> Round \<Rightarrow> bool \<times> Round" where
  "Round_end t r =
     (if state r \<noteq> RUNNING then (False, r)
      else (True, r\<lparr>state := CRASHED, endedAt := Some t, crashedAt := Some t\<rparr>))"

definition finalizeStatistics :: "round_statistics \<Rightarrow> round_statistics" where
  "finalizeStatistics s =
     (let s1 = (if totalBets s > 0
                then s\<lparr>winRate := Some (playersCashedOut s / totalBets s * 100),
                       crashRate := Some (playersCrashed s / totalBets s * 100)\<rparr>
                else s)
      in if totalWagered s1 > 0
         then (let totalReturned = totalPayout s1
               in s1\<lparr>stat_houseEdge :=
                        Some ((totalWagered s1 - totalReturned) / totalWagered s1 * 100)\<rparr>)
         else s1)"

definition Round_complete :: "Round \<Rightarrow> bool \<times> Round" where
  "Round_complete r =
     (if state r \<noteq> CRASHED then (False, r)
      else (True, r\<lparr>state := COMPLETED, statistics := finalizeStatistics (statistics r)\<rparr>))"

section \<open>Observations and example inputs\<close>

text \<open>What a caller observes of a generated round apart from its timestamp.\<close>

definition crash_outcome :: "crash_result \<Rightarrow> jsnum \<times> string \<times> jsnum \<times> point list" where
  "crash_outcome r = (crashMultiplier r, roundType r, gameDuration r, crashCurve r)"

definition color_outcome :: "color_result \<Rightarrow> string \<times> bool \<times> int" where
  "color_outcome r = (winningColor r, isWinRound r, color_seed r)"

definition clock_a :: clock where
  "clock_a = \<lparr>Date_now = 1700000000000, new_Date = 1700000000001\<rparr>"

definition clock_b :: clock where
  "clock_b = \<lparr>Date_now = 1800000000000, new_Date = 1800000000007\<rparr>"

text \<open>Round \<open>r1\<close> with the given bias and cap, on the engine's own seed or a custom one.\<close>

definition r1_options :: "real \<Rightarrow> real \<Rightarrow> int option \<Rightarrow> crash_options" where
  "r1_options b m cs =
     \<lparr>opt_lossBias = Some (Fin b), opt_maxWinMultiplier = Some (Fin m),
      opt_roundId = Some ''r1'', opt_customSeed = cs\<rparr>"

definition r1_color_options :: "real \<Rightarrow> int option \<Rightarrow> string list \<Rightarrow> color_options" where
  "r1_color_options b cs ws =
     \<lparr>co_roundId = Some ''r1'', co_lossBias = Some (Fin b), co_customSeed = cs,
      co_recentWinners = Some ws\<rparr>"

definition idle_round :: Round where
  "idle_round =
     \<lparr>r_roundId = ''r1'', r_lossBias = Fin (8 / 10), r_maxWinMultiplier = Fin 100,
      state = IDLE, startedAt = None, endedAt = None, r_crashMultiplier = None,
      r_roundType = None, r_crashCurve = [], r_gameDuration = Fin 0, r_generatedAt = None,
      crashedAt = None,
      statistics = \<lparr>totalPlayers = 0, totalBets = 0, totalWagered = 0, totalPayout = 0,
                     highestBet = 0, highestWin = 0, playersCashedOut = 0, playersCrashed = 0,
                     winRate = None, crashRate = None, stat_houseEdge = None\<rparr>,
      r_seed = None\<rparr>"

text \<open>A bet is settled once the payout loop has written its result; it is well formed when
  its stake is within the bounds \<open>calculateColorPayout\<close> checks.\<close>

definition settled :: "color_bet \<Rightarrow> bool" where
  "settled b = (cb_result b \<noteq> None \<and> cb_payout b \<noteq> None \<and> cb_profit b \<noteq> None)"

definition well_formed :: "color_bet \<Rightarrow> bool" where
  "well_formed b = (MIN_BET_AMOUNT \<le> cb_amount b \<and> cb_amount b \<le> MAX_BET_AMOUNT)"

text \<open>A pending bet as \<open>placeColorBet\<close> stores it, and a running round on red holding bets.\<close>

definition pending_bet :: "string \<Rightarrow> string \<Rightarrow> real \<Rightarrow> color_bet" where
  "pending_bet bid c a =
     \<lparr>betId = bid, cb_color = c, cb_amount = a, cb_roundId = ''color_round_1'', placedAt = 0,
      cb_state = ''pending'', cb_result = None, cb_payout = None, cb_profit = None,
      processedAt = None\<rparr>"

definition red_round :: "color_bet list \<Rightarrow> color_round" where
  "red_round bs =
     \<lparr>cr_roundId = ''color_round_1'', cr_state = ''completed'', cr_winningColor = ''red'',
      cr_isWinRound = True, roundDuration = 10000, bets = bs,
      cr_statistics = \<lparr>cs_totalBets = length bs, cs_totalWagered = sum_list (map cb_amount bs),
                        cs_totalPayout = 0, redBets = 0, greenBets = 0, violetBets = 0\<rparr>\<rparr>"


section \<open>Auxiliary facts\<close>

subsection \<open>Rounding to decimals\<close>

lemma toFixed_uminus: "toFixed d (- x) = - toFixed d x"
  by (simp add: toFixed_def sgn_real_def)

lemma toFixed_nonneg_eq:
  "0 \<le> x \<Longrightarrow> toFixed d x = (if x \<ge> 10 ^ 21 then x else of_int \<lfloor>x * 10 ^ d + 1 / 2\<rfloor> / 10 ^ d)"
  by (cases "x = 0") (simp_all add: toFixed_def sgn_real_def)

lemma toFixed_nonneg: "0 \<le> x \<Longrightarrow> 0 \<le> toFixed d x"
proof -
  assume x: "0 \<le> x"
  have "0 \<le> \<lfloor>x * 10 ^ d + 1 / 2\<rfloor>" using x by simp
  then show ?thesis using x by (simp add: toFixed_nonneg_eq)
qed

lemma toFixed_mono_nonneg:
  assumes "0 \<le> x" "x \<le> y"
  shows "toFixed d x \<le> toFixed d y"
proof -
  have y: "0 \<le> y" using assms by simp
  consider "y < 10 ^ 21" | "10 ^ 21 \<le> x" | "x < 10 ^ 21" "10 ^ 21 \<le> y"
    using assms by linarith
  then show ?thesis
  proof cases
    case 1
    then have "x < 10 ^ 21" using assms by simp
    moreover have "\<lfloor>x * 10 ^ d + 1 / 2\<rfloor> \<le> \<lfloor>y * 10 ^ d + 1 / 2\<rfloor>"
      using assms by (intro floor_mono) (simp add: mult_right_mono)
    ultimately show ?thesis
      using 1 assms y by (simp add: toFixed_nonneg_eq divide_right_mono)
  next
    case 2
    then show ?thesis using assms y by (simp add: toFixed_nonneg_eq)
  next
    case 3
    have "x * 10 ^ d < 10 ^ 21 * 10 ^ d"
      using 3(1) by (intro mult_strict_right_mono) simp_all
    moreover have "real_of_int (10 ^ 21 * 10 ^ d + 1) = 10 ^ 21 * 10 ^ d + 1" by simp
    ultimately have "x * 10 ^ d + 1 / 2 < real_of_int (10 ^ 21 * 10 ^ d + 1)" by linarith
    then have "\<lfloor>x * 10 ^ d + 1 / 2\<rfloor> < 10 ^ 21 * 10 ^ d + 1"
      by (simp only: floor_less_iff)
    then have "\<lfloor>x * 10 ^ d + 1 / 2\<rfloor> \<le> 10 ^ 21 * 10 ^ d" by simp
    then have "real_of_int \<lfloor>x * 10 ^ d + 1 / 2\<rfloor> \<le> real_of_int (10 ^ 21 * 10 ^ d)"
      by (simp only: of_int_le_iff)
    then have "real_of_int \<lfloor>x * 10 ^ d + 1 / 2\<rfloor> \<le> 10 ^ 21 * 10 ^ d" by simp
    then have "real_of_int \<lfloor>x * 10 ^ d + 1 / 2\<rfloor> / 10 ^ d \<le> 10 ^ 21"
      by (simp add: pos_divide_le_eq)
    then show ?thesis using 3 assms by (simp add: toFixed_nonneg_eq)
  qed
qed

lemma toFixed_mono: "x \<le> y \<Longrightarrow> toFixed d x \<le> toFixed d y"
proof -
  assume xy: "x \<le> y"
  consider "0 \<le> x" | "x < 0" "0 \<le> y" | "y < 0" using xy by linarith
  then show ?thesis
  proof cases
    case 1
    then show ?thesis using xy by (rule toFixed_mono_nonneg)
  next
    case 2
    have "toFixed d (- x) \<ge> 0" using 2 by (intro toFixed_nonneg) simp
    then have "toFixed d x \<le> 0" by (simp add: toFixed_uminus)
    moreover have "0 \<le> toFixed d y" using 2 by (intro toFixed_nonneg)
    ultimately show ?thesis by simp
  next
    case 3
    have "toFixed d (- y) \<le> toFixed d (- x)"
      using 3 xy by (intro toFixed_mono_nonneg) simp_all
    then show ?thesis by (simp add: toFixed_uminus)
  qed
qed

lemma toFixed_grid: "toFixed d (of_int k / 10 ^ d) = of_int k / 10 ^ d"
proof -
  have nn: "toFixed d (of_int k / 10 ^ d) = of_int k / 10 ^ d" if k: "0 \<le> k" for k
  proof -
    have "\<lfloor>real_of_int k + 1 / 2\<rfloor> = k" by linarith
    then show ?thesis using k by (simp add: toFixed_nonneg_eq)
  qed
  show ?thesis
  proof (cases "0 \<le> k")
    case True
    then show ?thesis by (rule nn)
  next
    case False
    then have "toFixed d (of_int (- k) / 10 ^ d) = of_int (- k) / 10 ^ d" by (intro nn) simp
    then show ?thesis using toFixed_uminus [of d "of_int k / 10 ^ d"] by simp
  qed
qed


subsection \<open>The range of the generator\<close>

lemma js_rem_nonneg: "0 \<le> x \<Longrightarrow> 0 \<le> js_rem x MODULUS \<and> js_rem x MODULUS < MODULUS"
  by (cases "x = 0") (simp_all add: js_rem_def MODULUS_def)

lemma js_rem_abs: "\<bar>js_rem x MODULUS\<bar> < MODULUS"
  by (simp add: js_rem_def MODULUS_def abs_mult)

lemma dbl_round_nonneg: "0 \<le> x \<Longrightarrow> 0 \<le> dbl_round x"
proof -
  assume x: "0 \<le> x"
  have q: "0 \<le> x div 2 ^ n" for n using x by (simp add: pos_imp_zdiv_nonneg_iff)
  have A: "0 \<le> sgn x * ((x div 2 ^ n + 1) * 2 ^ n)" for n
    using x q [of n] by (intro mult_nonneg_nonneg) (simp_all add: sgn_if)
  have B: "0 \<le> sgn x * (x div 2 ^ n * 2 ^ n)" for n
    using x q [of n] by (intro mult_nonneg_nonneg) (simp_all add: sgn_if)
  show ?thesis using x by (simp add: dbl_round_def Let_def A B)
qed

lemma lcg_next_nonneg: "0 \<le> s \<Longrightarrow> 0 \<le> lcg_next s \<and> lcg_next s < MODULUS"
  unfolding lcg_next_def by (intro js_rem_nonneg dbl_round_nonneg) (simp add: dbl_round_nonneg)

lemma prng_nonneg:
  "0 \<le> s \<Longrightarrow> 0 \<le> fst (prng s) \<and> fst (prng s) < 1 \<and> 0 \<le> snd (prng s)"
  using lcg_next_nonneg [of s] by (simp add: prng_def Let_def MODULUS_def)

lemma prng_abs: "\<bar>fst (prng s)\<bar> < 1"
  using js_rem_abs [of "dbl_round (dbl_round (1103515245 * s) + 12345)"]
  by (simp add: prng_def Let_def lcg_next_def MODULUS_def)

subsection \<open>Evaluations at round r1\<close>

lemma hashString_r1: "hashString ''r1'' = 3583"
  by (simp add: hashString_def)

lemma seed_r1_default: "xor32 SEED 3583 = - 1412620341"
  by (simp add: xor32_def SEED_def)

lemma seed_r1_custom0: "xor32 0 3583 = 3583"
  by (simp add: xor32_def)

lemma lcg_default_1: "lcg_next (- 1412620341) = - 938962176" by code_simp
lemma lcg_default_2: "lcg_next (- 938962176) = - 93272320" by code_simp
lemma lcg_default_3: "lcg_next (- 93272320) = - 391713984" by code_simp

lemma lcg_custom0_1: "lcg_next 3583 = 377739212" by code_simp
lemma lcg_custom0_2: "lcg_next 377739212 = 1974155776" by code_simp

lemma loss_multiplier_default_r1: "generateLossMultiplier (- 938962176) = (NaN, - 391713984)"
proof -
  have "ln (1 - real_of_int (- 93272320) / 2 ^ 31) > 0"
    by (rule ln_gt_zero) simp
  then show ?thesis
    by (simp add: generateLossMultiplier_def generateNormalDistribution_def prng_def
          lcg_default_2 lcg_default_3 MODULUS_def)
qed

subsection \<open>Colour selection\<close>

lemma nth_opt_in_set: "nth_opt xs i = Some x \<Longrightarrow> x \<in> set xs"
  by (auto simp: nth_opt_def split: if_splits)

lemma selectColor_loop_in_set: "selectColor_loop cs rv cum = Inr (Some x) \<Longrightarrow> x \<in> set cs"
  by (induction cs rv cum rule: selectColor_loop.induct)
     (auto simp: Let_def split: option.splits if_splits)

lemma selectColorByProbability_in_set:
  "selectColorByProbability cs st = Inr (Some x) \<Longrightarrow> x \<in> set cs"
  by (auto simp: selectColorByProbability_def case_prod_beta split: sum.splits option.splits
        dest: selectColor_loop_in_set nth_opt_in_set)

lemma selectWinningColor_breaks_streak:
  assumes "selectWinningColor st (pre @ [c, c, c]) = Inr (Some x)"
  shows "x \<noteq> c"
proof -
  have "countConsecutiveWins c (pre @ [c, c, c]) \<ge> 3"
    by (simp add: countConsecutiveWins_def)
  then have "selectColorByProbability (filter (\<lambda>color. color \<noteq> c) (map fst COLOR_PROPERTIES)) st
               = Inr (Some x)"
    using assms by (simp add: selectWinningColor_def MAX_CONSECUTIVE_WINS_def Let_def nth_append)
  then have "x \<in> set (filter (\<lambda>color. color \<noteq> c) (map fst COLOR_PROPERTIES))"
    by (rule selectColorByProbability_in_set)
  then show ?thesis by simp
qed

lemma configured_lookup:
  "x \<in> set (map fst COLOR_PROPERTIES) \<Longrightarrow> \<exists>props. map_of COLOR_PROPERTIES x = Some props"
  by (cases "map_of COLOR_PROPERTIES x") (auto simp: map_of_eq_None_iff)

lemma selectColor_loop_returns:
  "set cs \<subseteq> set (map fst COLOR_PROPERTIES) \<Longrightarrow> \<exists>v. selectColor_loop cs rv cum = Inr v"
proof (induction cs rv cum rule: selectColor_loop.induct)
  case (1 rv cum)
  then show ?case by simp
next
  case (2 color rest rv cum)
  then obtain props where p: "map_of COLOR_PROPERTIES color = Some props"
    using configured_lookup [of color] by auto
  show ?case
  proof (cases "rv \<le> cum + cp_probability props")
    case True
    then show ?thesis using p by (simp add: Let_def)
  next
    case False
    then show ?thesis using p 2 by (simp add: Let_def)
  qed
qed

lemma selectColorByProbability_returns:
  assumes "set cs \<subseteq> set (map fst COLOR_PROPERTIES)" and "cs \<noteq> []"
  shows "\<exists>x. selectColorByProbability cs st = Inr (Some x)"
proof -
  obtain v where v: "selectColor_loop cs (fst (prng st)) 0 = Inr v"
    using selectColor_loop_returns [OF assms(1)] by blast
  have "nth_opt cs 0 = Some (cs ! 0)" using assms(2) by (simp add: nth_opt_def)
  then show ?thesis using v
    by (cases v) (simp_all add: selectColorByProbability_def case_prod_beta)
qed

lemma selectWinningColor_returns: "\<exists>x. selectWinningColor st ws = Inr (Some x)"
proof -
  have all: "\<exists>x. selectColorByProbability (map fst COLOR_PROPERTIES) st = Inr (Some x)"
    by (rule selectColorByProbability_returns) (simp_all add: COLOR_PROPERTIES_def)
  have others: "\<exists>x. selectColorByProbability
                       (filter (\<lambda>color. color \<noteq> l) (map fst COLOR_PROPERTIES)) st = Inr (Some x)" for l
    by (rule selectColorByProbability_returns) (auto simp: COLOR_PROPERTIES_def)
  show ?thesis using all others by (simp add: selectWinningColor_def Let_def)
qed

lemma selectWinningColor_configured:
  assumes "selectWinningColor st ws = Inr (Some x)"
  shows "x \<in> set (map fst COLOR_PROPERTIES)"
proof -
  have "x \<in> set (filter (\<lambda>color. color \<noteq> l) (map fst COLOR_PROPERTIES)) \<Longrightarrow>
        x \<in> set (map fst COLOR_PROPERTIES)" for l
    by simp
  then show ?thesis
    using assms
    by (auto simp: selectWinningColor_def Let_def split: if_splits
          dest!: selectColorByProbability_in_set)
qed

lemma green_after_red_streak:
  "generateWinningColor 0 clock_a (r1_color_options 0 (Some 0) [''red'', ''red'', ''red''])
     = Inr \<lparr>winningColor = ''green'', colorName = ''Green'', hexColor = ''#10B981'',
            payoutMultiplier = 3, isWinRound = True, isPlatformWin = False, color_seed = 3583,
            color_generatedAt = 1700000000001,
            color_metadata = \<lparr>cm_roundId = ''r1'', cm_lossBias = Fin 0,
                              cm_probability = 35 / 100\<rparr>\<rparr>"
  by (simp add: generateWinningColor_def r1_color_options_def jgt_def hashString_r1 seed_r1_custom0
        prng_def lcg_custom0_1 lcg_custom0_2 MODULUS_def Let_def selectWinningColor_def
        MAX_CONSECUTIVE_WINS_def countConsecutiveWins_def selectColorByProbability_def
        COLOR_PROPERTIES_def nth_opt_def clock_a_def)

subsection \<open>Settlement\<close>

lemma calculateColorPayout_malformed:
  "\<not> well_formed b \<Longrightarrow>
   \<exists>e. calculateColorPayout \<lparr>bet_color = cb_color b, bet_amount = cb_amount b\<rparr> wc = Inl e"
  by (auto simp: well_formed_def calculateColorPayout_def Let_def)

lemma calculateColorPayout_well_formed:
  "well_formed b \<Longrightarrow> map_of COLOR_PROPERTIES wc = Some props \<Longrightarrow>
   \<exists>r. calculateColorPayout \<lparr>bet_color = cb_color b, bet_amount = cb_amount b\<rparr> wc = Inr r"
  by (auto simp: well_formed_def calculateColorPayout_def Let_def case_prod_beta)

lemma settle_bets_stops:
  assumes "list_all well_formed pre" and "\<not> well_formed bad"
    and "map_of COLOR_PROPERTIES wc = Some props"
  shows "\<exists>e pre' tot'. settle_bets now wc i (pre @ bad # post) tot = (Some e, pre' @ bad # post, tot')
           \<and> length pre' = length pre \<and> list_all settled pre'"
  using assms(1)
proof (induction pre arbitrary: i tot)
  case Nil
  obtain e where "calculateColorPayout \<lparr>bet_color = cb_color bad, bet_amount = cb_amount bad\<rparr> wc = Inl e"
    using calculateColorPayout_malformed [OF assms(2)] by blast
  then show ?case by simp
next
  case (Cons b pre)
  then have wf: "well_formed b" and rest: "list_all well_formed pre" by simp_all
  obtain r where r: "calculateColorPayout \<lparr>bet_color = cb_color b, bet_amount = cb_amount b\<rparr> wc = Inr r"
    using calculateColorPayout_well_formed [OF wf assms(3)] by blast
  define t' where "t' = (if isWin r then binary64 (tot + payout r) else tot)"
  obtain e pre' tot' where
    ih: "settle_bets now wc (Suc i) (pre @ bad # post) t' = (Some e, pre' @ bad # post, tot')"
        "length pre' = length pre" "list_all settled pre'"
    using Cons.IH [OF rest, of "Suc i" t'] by blast
  define b' where "b' = b\<lparr>cb_result := Some (if isWin r then ''win'' else ''loss''),
                          cb_payout := Some (payout r), cb_profit := Some (profit r),
                          processedAt := Some (now i)\<rparr>"
  have "settle_bets now wc i ((b # pre) @ bad # post) tot = (Some e, (b' # pre') @ bad # post, tot')"
    using r ih(1) by (simp add: Let_def t'_def b'_def)
  moreover have "settled b'" by (simp add: settled_def b'_def)
  ultimately show ?case using ih(2,3) by (intro exI [of _ e] exI [of _ "b' # pre'"] exI [of _ tot']) simp
qed

subsection \<open>The range of the crash multiplier\<close>

lemma generateLossMultiplier_range:
  assumes "0 \<le> s"
  shows "\<exists>m s'. generateLossMultiplier s = (Fin m, s') \<and> 11 / 10 \<le> m \<and> m \<le> 2"
proof -
  obtain a s1 where p1: "prng s = (a, s1)" by (cases "prng s")
  obtain u2 s2 where p2: "prng s1 = (u2, s2)" by (cases "prng s1")
  have a: "0 \<le> a" "a < 1" using prng_nonneg [OF assms] p1 by simp_all
  then have "ln (1 - a) \<le> 0" by simp
  then have nn: "\<not> - 2 * ln (1 - a) < 0" by simp
  have lg: "Math_log (Fin (1 - a)) = Fin (ln (1 - a))" using a by simp
  have sq: "Math_sqrt (Fin (- 2 * ln (1 - a))) = Fin (sqrt (- 2 * ln (1 - a)))"
    using nn by (simp only: Math_sqrt.simps if_False)
  define z where "z = sqrt (- 2 * ln (1 - a)) * cos (2 * pi * u2)"
  have "generateNormalDistribution s = (Fin z, s2)"
    unfolding z_def
    by (simp only: generateNormalDistribution_def p1 p2 Let_def prod.case lg lift1.simps sq
          Math_cos_def jmul.simps)
  then have "generateLossMultiplier s = (Fin (min (max (13 / 10 + z * (2 / 10)) (11 / 10)) 2), s2)"
    by (simp add: generateLossMultiplier_def Let_def)
  moreover have "11 / 10 \<le> min (max (13 / 10 + z * (2 / 10)) (11 / 10)) 2" by simp
  moreover have "min (max (13 / 10 + z * (2 / 10)) (11 / 10)) 2 \<le> 2" by simp
  ultimately show ?thesis by blast
qed

lemma generateWinMultiplier_range:
  assumes "0 \<le> s" and "1 \<le> M"
  shows "\<exists>m. generateWinMultiplier s (Fin M) = (Fin m, snd (prng s)) \<and> min 2 M \<le> m \<and> m \<le> M
              \<and> (M \<le> 2 \<longrightarrow> m = M)"
proof -
  obtain v s1 where p1: "prng s = (v, s1)" by (cases "prng s")
  have v: "0 \<le> v" "v < 1" using prng_nonneg [OF assms(1)] p1 by simp_all
  define w where "w = 2 * exp (v * ln (M / 2))"
  have eq: "generateWinMultiplier s (Fin M) = (Fin (min w M), snd (prng s))"
    using assms(2) by (simp add: generateWinMultiplier_def p1 Math_exp_def Let_def w_def)
  have low0: "min 2 M \<le> 2 * exp (v * ln (M / 2))"
  proof (cases "2 \<le> M")
    case True
    then have "0 \<le> v * ln (M / 2)" using v by simp
    then have "exp 0 \<le> exp (v * ln (M / 2))" by (simp only: exp_le_cancel_iff)
    then have "2 \<le> 2 * exp (v * ln (M / 2))" by simp
    moreover have "min 2 M \<le> 2" by simp
    ultimately show ?thesis by linarith
  next
    case False
    then have "ln (M / 2) \<le> 0" using assms(2) by simp
    then have "1 * ln (M / 2) \<le> v * ln (M / 2)"
      using v by (intro mult_right_mono_neg) simp_all
    then have "ln (M / 2) \<le> v * ln (M / 2)" by simp
    then have "exp (ln (M / 2)) \<le> exp (v * ln (M / 2))" by (simp only: exp_le_cancel_iff)
    moreover have "exp (ln (M / 2)) = M / 2" using assms(2) by simp
    ultimately have "M \<le> 2 * exp (v * ln (M / 2))" by simp
    moreover have "min 2 M \<le> M" by simp
    ultimately show ?thesis by linarith
  qed
  have low: "min 2 M \<le> w" using low0 by (simp only: w_def)
  have "min 2 M \<le> min w M" using low by simp
  moreover have "min w M \<le> M" by simp
  moreover have "M \<le> 2 \<longrightarrow> min w M = M" using low by auto
  ultimately show ?thesis using eq by blast
qed

subsection \<open>The losing colour\<close>

lemma weightedColors_eq:
  "weightedColors = replicate 20 ''red'' @ replicate 30 ''green'' @ replicate 140 ''violet''"
  by (simp add: weightedColors_def COLOR_PROPERTIES_def)

lemma selectLosingColor_fallback_returns:
  assumes "0 \<le> s"
  shows "\<exists>x. selectLosingColor_fallback s = Some x \<and> x \<in> set (map fst COLOR_PROPERTIES)"
proof -
  obtain u s1 where p: "prng s = (u, s1)" by (cases "prng s")
  have u: "0 \<le> u" "u < 1" using prng_nonneg [OF assms] p by simp_all
  have len: "length weightedColors = 190" by (simp add: weightedColors_eq)
  have "0 \<le> u * 190" "u * 190 < 190" using u by simp_all
  then have idx: "0 \<le> \<lfloor>u * 190\<rfloor>" "\<lfloor>u * 190\<rfloor> < 190" by (simp_all add: floor_less_iff)
  then have "nth_opt weightedColors \<lfloor>u * 190\<rfloor> = Some (weightedColors ! nat \<lfloor>u * 190\<rfloor>)"
    by (simp add: nth_opt_def len)
  moreover have "nat \<lfloor>u * 190\<rfloor> < 190" using idx by linarith
  then have "weightedColors ! nat \<lfloor>u * 190\<rfloor> \<in> set weightedColors"
    by (intro nth_mem) (simp add: len)
  moreover have "set weightedColors \<subseteq> set (map fst COLOR_PROPERTIES)"
    by (auto simp: weightedColors_eq COLOR_PROPERTIES_def)
  ultimately show ?thesis
    by (auto simp: selectLosingColor_fallback_def p Let_def len)
qed

lemma least_recent_scan:
  "fst acc \<in> S \<Longrightarrow> set cs \<subseteq> S \<Longrightarrow>
   fst (fold (\<lambda>color (leastRecentColor, smallestIndex).
                if lt_undef (m color) smallestIndex then (color, m color)
                else (leastRecentColor, smallestIndex)) cs acc) \<in> S"
  by (induction cs arbitrary: acc) (auto simp: case_prod_beta)

lemma findLeastRecentColor_configured:
  "findLeastRecentColor colors ws = Some x \<Longrightarrow> x \<in> set colors"
proof -
  assume a: "findLeastRecentColor colors ws = Some x"
  then obtain c0 rest where c: "colors = c0 # rest"
    by (cases colors) (auto simp: findLeastRecentColor_def split: if_splits)
  define m where "m = lastIndexMap colors ws"
  have "x = fst (fold (\<lambda>color (leastRecentColor, smallestIndex).
                if lt_undef (m color) smallestIndex then (color, m color)
                else (leastRecentColor, smallestIndex)) colors (c0, m c0))"
    using a unfolding findLeastRecentColor_def m_def Let_def
    by (simp add: c split: if_splits del: fold.simps)
  moreover have "fst (c0, m c0) \<in> set colors" by (simp add: c)
  ultimately show ?thesis using least_recent_scan [of "(c0, m c0)" "set colors" colors m] by simp
qed

lemma selectLosingColor_returns:
  assumes "0 \<le> s"
  shows "\<exists>x. selectLosingColor s ws = Some x \<and> x \<in> set (map fst COLOR_PROPERTIES)"
proof -
  obtain u s1 where p: "prng s = (u, s1)" by (cases "prng s")
  have s1: "0 \<le> s1" using prng_nonneg [OF assms] p by simp
  obtain x0 where f0: "selectLosingColor_fallback s = Some x0" "x0 \<in> set (map fst COLOR_PROPERTIES)"
    using selectLosingColor_fallback_returns [OF assms] by blast
  obtain x1 where f1: "selectLosingColor_fallback s1 = Some x1" "x1 \<in> set (map fst COLOR_PROPERTIES)"
    using selectLosingColor_fallback_returns [OF s1] by blast
  show ?thesis
  proof (cases "truthy (findLeastRecentColor (map fst COLOR_PROPERTIES) ws)")
    case True
    then obtain l where l: "findLeastRecentColor (map fst COLOR_PROPERTIES) ws = Some l"
      by (auto simp: truthy_def)
    then have "l \<in> set (map fst COLOR_PROPERTIES)" by (rule findLeastRecentColor_configured)
    then show ?thesis using True l f0 f1 p by (simp add: selectLosingColor_def Let_def)
  next
    case False
    then show ?thesis using f0 by (simp add: selectLosingColor_def Let_def)
  qed
qed

lemma generateWinningColor_returns:
  assumes "0 \<le> b" and "b \<le> 1"
    and "0 \<le> xor32 (case cs of Some c \<Rightarrow> c | None \<Rightarrow> base) (hashString i)"
  shows "\<exists>r. generateWinningColor base clk
               \<lparr>co_roundId = Some i, co_lossBias = Some (Fin b), co_customSeed = cs,
                co_recentWinners = Some ws\<rparr> = Inr r"
proof -
  define fs where "fs = xor32 (case cs of Some c \<Rightarrow> c | None \<Rightarrow> base) (hashString i)"
  obtain u s1 where p: "prng fs = (u, s1)" by (cases "prng fs")
  have s1: "0 \<le> s1" using prng_nonneg [of fs] assms(3) p by (simp add: fs_def)
  obtain x where x: "selectLosingColor s1 ws = Some x" "x \<in> set (map fst COLOR_PROPERTIES)"
    using selectLosingColor_returns [OF s1] by blast
  obtain y where y: "selectWinningColor s1 ws = Inr (Some y)"
    using selectWinningColor_returns by blast
  then have "y \<in> set (map fst COLOR_PROPERTIES)" by (rule selectWinningColor_configured)
  then obtain px py where "map_of COLOR_PROPERTIES x = Some px" "map_of COLOR_PROPERTIES y = Some py"
    using x(2) configured_lookup by blast
  then show ?thesis
    using assms(1,2) p x(1) y
    by (simp add: generateWinningColor_def Let_def jgt_def fs_def [symmetric])
qed

lemma generateWinningColor_configured:
  "generateWinningColor base clk opts = Inr r \<Longrightarrow> winningColor r \<in> set (map fst COLOR_PROPERTIES)"
proof -
  assume "generateWinningColor base clk opts = Inr r"
  then obtain props where "map_of COLOR_PROPERTIES (winningColor r) = Some props"
    by (auto simp: generateWinningColor_def Let_def case_prod_beta
          split: if_splits sum.splits option.splits)
  then have "(winningColor r, props) \<in> set COLOR_PROPERTIES" by (rule map_of_SomeD)
  then show ?thesis by (auto intro: rev_image_eqI)
qed

subsection \<open>The generated round\<close>

lemma toFixed4_eleven_tenths: "toFixed 4 (11 / 10) = 11 / 10"
  using toFixed_grid [of 4 11000] by simp

lemma toFixed4_two: "toFixed 4 2 = 2"
  using toFixed_grid [of 4 20000] by simp

lemma toFixed4_one: "toFixed 4 1 = 1"
  using toFixed_grid [of 4 10000] by simp

lemma generateCrashMultiplier_shape:
  assumes "0 \<le> b" and "b \<le> 1" and "1 \<le> M"
    and "0 \<le> xor32 (case cs of Some s \<Rightarrow> s | None \<Rightarrow> SEED) (hashString i)"
  shows "\<exists>r c raw st.
           generateCrashMultiplier clk
             \<lparr>opt_lossBias = Some (Fin b), opt_maxWinMultiplier = Some (Fin M),
              opt_roundId = Some i, opt_customSeed = cs\<rparr> = Inr r
           \<and> crashMultiplier r = Fin c \<and> c = toFixed 4 raw \<and> 1 \<le> raw
           \<and> crashCurve r = generateCrashCurve (Fin raw) (gameDuration r) st
           \<and> (if isLossRound r then roundType r = ''loss'' \<and> 11 / 10 \<le> c \<and> c \<le> 2
               else roundType r = ''win'' \<and> 1 \<le> c \<and> c \<le> toFixed 4 M \<and> (M \<le> 2 \<longrightarrow> raw = M))"
proof -
  define fs where "fs = xor32 (case cs of Some s \<Rightarrow> s | None \<Rightarrow> SEED) (hashString i)"
  obtain u s1 where p: "prng fs = (u, s1)" by (cases "prng fs")
  have s1: "0 \<le> s1" using prng_nonneg [of fs] assms(4) p by (simp add: fs_def)
  show ?thesis
  proof (cases "u < b")
    case True
    obtain m s2 where m: "generateLossMultiplier s1 = (Fin m, s2)" "11 / 10 \<le> m" "m \<le> 2"
      using generateLossMultiplier_range [OF s1] by blast
    have "toFixed 4 (11 / 10) \<le> toFixed 4 m" "toFixed 4 m \<le> toFixed 4 2"
      using m(2,3) by (intro toFixed_mono; simp)+
    then have c: "11 / 10 \<le> toFixed 4 m" "toFixed 4 m \<le> 2"
      by (simp_all only: toFixed4_eleven_tenths toFixed4_two)
    have "1 \<le> m" using m(2) by simp
    then show ?thesis
      using assms(1,2,3) p True m(1) c
      by (simp add: generateCrashMultiplier_def Let_def jgt_def fs_def [symmetric]
            parseFloat_toFixed_def) blast
  next
    case False
    obtain m where m: "generateWinMultiplier s1 (Fin M) = (Fin m, snd (prng s1))"
        "min 2 M \<le> m" "m \<le> M" "M \<le> 2 \<longrightarrow> m = M"
      using generateWinMultiplier_range [OF s1 assms(3)] by blast
    have one: "1 \<le> m" using m(2) assms(3) by simp
    have "toFixed 4 1 \<le> toFixed 4 m" "toFixed 4 m \<le> toFixed 4 M"
      using one m(3) by (intro toFixed_mono; simp)+
    then have c: "1 \<le> toFixed 4 m" "toFixed 4 m \<le> toFixed 4 M"
      by (simp_all only: toFixed4_one)
    show ?thesis
      using assms(1,2,3) p False m(1,4) c one
      by (simp add: generateCrashMultiplier_def Let_def jgt_def fs_def [symmetric]
            parseFloat_toFixed_def) blast
  qed
qed

subsection \<open>The crash curve\<close>

lemma curve_step_length: "length (fst (curve_step C d i cs)) = Suc (length (fst cs))"
  by (simp add: curve_step_def Let_def case_prod_beta)


lemma curve_fold_length:
  "length (fst (fold (curve_step C d) is cs)) = length (fst cs) + length is"
  by (induction "is" arbitrary: cs) (simp_all add: curve_step_length)


lemma curve_fold_100: "length (fst (fold (curve_step C d) [0..<points] ([], s))) = 100"
  by (simp add: curve_fold_length points_def)

lemma curve_fold_nonempty: "fst (fold (curve_step C d) [0..<points] ([], s)) \<noteq> []"
  using curve_fold_100 [of C d s] by force


lemma generateCrashCurve_last: "multiplier (last (generateCrashCurve C d s)) = C"
  by (simp add: generateCrashCurve_def Let_def curve_fold_100 curve_fold_nonempty last_list_update)







subsection \<open>Evaluations of the curve\<close>




lemma win_multiplier_r1_small_cap:
  assumes "1 \<le> M" and "M \<le> 2"
  shows "generateWinMultiplier 377739212 (Fin M) = (Fin M, 1974155776)"
proof -
  have "snd (prng 377739212) = 1974155776" by (simp add: prng_def lcg_custom0_2)
  then show ?thesis using generateWinMultiplier_range [of 377739212 M] assms by auto
qed


subsection \<open>Rounding to binary64\<close>






















subsection \<open>The amounts of a colour payout\<close>












subsection \<open>Evaluations of the colour payout\<close>













section \<open>Determinism\<close>

text \<open>
  C1. With the round id given, the outcome of \<open>generateCrashMultiplier\<close> (multiplier,
  category, duration and curve) and of \<open>generateWinningColor\<close> (colour, category and seed)
  is the same whatever the clock reads: two calls with the same options agree on everything
  but the timestamp, and they fail with the same error when they fail.
\<close>

theorem generators_deterministic:
  "(opt_roundId opts \<noteq> None \<longrightarrow>
      map_sum id crash_outcome (generateCrashMultiplier clk1 opts)
        = map_sum id crash_outcome (generateCrashMultiplier clk2 opts))
   \<and> (co_roundId copts \<noteq> None \<longrightarrow>
      map_sum id color_outcome (generateWinningColor base clk1 copts)
        = map_sum id color_outcome (generateWinningColor base clk2 copts))"
proof (intro conjI impI)
  assume "opt_roundId opts \<noteq> None"
  then obtain rid where "opt_roundId opts = Some rid" by auto
  then show "map_sum id crash_outcome (generateCrashMultiplier clk1 opts)
        = map_sum id crash_outcome (generateCrashMultiplier clk2 opts)"
    by (simp add: generateCrashMultiplier_def Let_def case_prod_beta crash_outcome_def)
next
  assume "co_roundId copts \<noteq> None"
  then obtain rid where "co_roundId copts = Some rid" by auto
  then show "map_sum id color_outcome (generateWinningColor base clk1 copts)
        = map_sum id color_outcome (generateWinningColor base clk2 copts)"
    by (simp add: generateWinningColor_def Let_def case_prod_beta color_outcome_def
          split: sum.split option.split)
qed

theorem generators_deterministic_witness:
  "opt_roundId (r1_options (8 / 10) 100 None) \<noteq> None
   \<and> map_sum id crash_outcome (generateCrashMultiplier clock_a (r1_options (8 / 10) 100 None))
       = map_sum id crash_outcome (generateCrashMultiplier clock_b (r1_options (8 / 10) 100 None))
   \<and> co_roundId (r1_color_options (65 / 100) (Some 7) [''red'']) \<noteq> None
   \<and> map_sum id color_outcome
         (generateWinningColor 0 clock_a (r1_color_options (65 / 100) (Some 7) [''red'']))
       = map_sum id color_outcome
           (generateWinningColor 0 clock_b (r1_color_options (65 / 100) (Some 7) [''red'']))"
  using generators_deterministic
          [of "r1_options (8 / 10) 100 None" clock_a clock_b
              "r1_color_options (65 / 100) (Some 7) [''red'']" 0]
  by (simp add: r1_options_def r1_color_options_def)

section \<open>Cash-out validation\<close>

text \<open>
  C8. \<open>validateCashout\<close> accepts a cash-out only if the cash-out multiplier is below the
  crash multiplier and the effective cash-out time, the multiplier's share of the duration
  plus the delay, is strictly before the crash time. A stake of 100 cashed out at 2.0 with a
  crash at 3.0, no delay and a duration of 10000 succeeds with profit 100.00; with a crash
  at 1.5 it fails with profit -100.00.
\<close>

theorem validateCashout_spec:
  "(validateCashout c m d g \<longrightarrow> c < m \<and> (m \<noteq> 0 \<longrightarrow> c / m * g + d < g))
   \<and> validateCrashCashout
        \<lparr>cd_cashoutMultiplier = 2, cd_crashMultiplier = 3, cd_cashoutDelay = Some 0,
         cd_gameDuration = Some 10000, cd_betAmount = Some 100\<rparr>
      = \<lparr>success = True, isValid = True, cashout_profit = 100, message = ''Cashout successful''\<rparr>
   \<and> validateCrashCashout
        \<lparr>cd_cashoutMultiplier = 2, cd_crashMultiplier = 3 / 2, cd_cashoutDelay = Some 0,
         cd_gameDuration = Some 10000, cd_betAmount = Some 100\<rparr>
      = \<lparr>success = True, isValid = False, cashout_profit = - 100,
         message = ''Cashout failed - crashed before cashout''\<rparr>"
  by (simp add: validateCashout_def validateCrashCashout_def calculateProfit_def toFixed_def Let_def)

theorem validateCashout_spec_witness:
  "validateCashout 2 3 0 10000 \<and> (2 :: real) < 3 \<and> (3 :: real) \<noteq> 0
   \<and> (2 :: real) / 3 * 10000 + 0 < 10000"
  using validateCashout_spec [of 2 3 0 10000]
  by (simp add: validateCashout_def)

section \<open>Out-of-order transitions\<close>

text \<open>
  C9. \<open>end()\<close> on an idle round reports failure and leaves the round idle; every call of
  \<open>start()\<close>, \<open>end()\<close> or \<open>complete()\<close> outside the order idle, running, crashed
  reports failure and leaves the whole round as it was.
\<close>

theorem Round_out_of_order_noop:
  "(state r = IDLE \<longrightarrow> Round_end t r = (False, r) \<and> state (snd (Round_end t r)) = IDLE)
   \<and> (state r \<noteq> IDLE \<longrightarrow> Round_start clk t r = (False, r))
   \<and> (state r \<noteq> RUNNING \<longrightarrow> Round_end t r = (False, r))
   \<and> (state r \<noteq> CRASHED \<longrightarrow> Round_complete r = (False, r))"
  by (simp add: Round_start_def Round_end_def Round_complete_def)

theorem Round_out_of_order_noop_witness:
  "state idle_round = IDLE
   \<and> Round_end 5 idle_round = (False, idle_round)
   \<and> state (snd (Round_end 5 idle_round)) = IDLE
   \<and> state (idle_round\<lparr>state := CRASHED\<rparr>) \<noteq> IDLE
   \<and> Round_start clock_a 5 (idle_round\<lparr>state := CRASHED\<rparr>) = (False, idle_round\<lparr>state := CRASHED\<rparr>)
   \<and> state idle_round \<noteq> CRASHED
   \<and> Round_complete idle_round = (False, idle_round)"
  using Round_out_of_order_noop [of idle_round 5 clock_a]
        Round_out_of_order_noop [of "idle_round\<lparr>state := CRASHED\<rparr>" 5 clock_a]
  by (simp add: idle_round_def)

section \<open>The category at the extreme biases\<close>

text \<open>With bias 1 every round is a loss round, and with bias 0 every round on a generator
  seed that is not negative is a win round.\<close>

lemma bias_one_is_loss:
  assumes "1 \<le> M"
  shows "\<exists>r. generateCrashMultiplier clk
               \<lparr>opt_lossBias = Some (Fin 1), opt_maxWinMultiplier = Some (Fin M),
                opt_roundId = Some i, opt_customSeed = cs\<rparr> = Inr r
             \<and> roundType r = ''loss''"
proof -
  define fs where "fs = xor32 (case cs of Some s \<Rightarrow> s | None \<Rightarrow> SEED) (hashString i)"
  obtain u s1 where p: "prng fs = (u, s1)" by (cases "prng fs")
  have "u < 1" using prng_abs [of fs] p by simp
  then show ?thesis
    using assms p
    by (simp add: generateCrashMultiplier_def Let_def jgt_def fs_def [symmetric] case_prod_beta)
qed

lemma bias_zero_is_win_on_nonnegative_seed:
  assumes "1 \<le> M" and "0 \<le> xor32 (case cs of Some s \<Rightarrow> s | None \<Rightarrow> SEED) (hashString i)"
  shows "\<exists>r. generateCrashMultiplier clk
               \<lparr>opt_lossBias = Some (Fin 0), opt_maxWinMultiplier = Some (Fin M),
                opt_roundId = Some i, opt_customSeed = cs\<rparr> = Inr r
             \<and> roundType r = ''win''"
proof -
  define fs where "fs = xor32 (case cs of Some s \<Rightarrow> s | None \<Rightarrow> SEED) (hashString i)"
  obtain u s1 where p: "prng fs = (u, s1)" by (cases "prng fs")
  have "\<not> u < 0" using prng_nonneg [of fs] assms(2) p by (simp add: fs_def)
  then show ?thesis
    using assms(1) p
    by (simp add: generateCrashMultiplier_def Let_def jgt_def fs_def [symmetric] case_prod_beta)
qed

text \<open>
  C5 (the code departs from it). With the engine's own seed \<open>0xABCD1234\<close> the seed handed
  to the generator, \<open>baseSeed ^ seedHash\<close>, is negative, every draw is negative, and the
  comparison \<open>prng() < lossBias\<close> holds even for \<open>lossBias = 0\<close>: round \<open>r1\<close> with
  bias 0 and cap 100 is a loss round, and its multiplier is \<open>NaN\<close>, the square root of
  a negative number in the Box-Muller transform.
\<close>

theorem bias_zero_default_seed_is_loss:
  "map_sum id (\<lambda>r. (roundType r, isLossRound r, crashMultiplier r))
     (generateCrashMultiplier clock_a (r1_options 0 100 None)) = Inr (''loss'', True, NaN)"
  by (simp add: generateCrashMultiplier_def r1_options_def jgt_def hashString_r1 seed_r1_default
        prng_def lcg_default_1 MODULUS_def loss_multiplier_default_r1 parseFloat_toFixed_def Let_def)

section \<open>Colour payouts\<close>




section \<open>Breaking a streak\<close>

text \<open>
  C6. When the three most recent winners are the same colour, a player-win round never
  returns that colour: every result of \<open>generateWinningColor\<close> with \<open>isWinRound\<close>
  differs from it, and whenever the first draw is not below a valid loss bias the call does
  return such a result.
\<close>

theorem streak_color_excluded:
  "(generateWinningColor base clk
       \<lparr>co_roundId = rid, co_lossBias = lb, co_customSeed = cs,
        co_recentWinners = Some (pre @ [c, c, c])\<rparr> = Inr r \<and> isWinRound r
     \<longrightarrow> winningColor r \<noteq> c)
   \<and> (\<not> jlt b (Fin 0) \<and> \<not> jgt b (Fin 1)
       \<and> \<not> jlt (Fin (fst (prng (xor32 (case cs of Some s \<Rightarrow> s | None \<Rightarrow> base) (hashString i))))) b
     \<longrightarrow> (\<exists>r'. generateWinningColor base clk
                 \<lparr>co_roundId = Some i, co_lossBias = Some b, co_customSeed = cs,
                  co_recentWinners = Some (pre @ [c, c, c])\<rparr> = Inr r'
               \<and> isWinRound r' \<and> winningColor r' \<noteq> c))"
proof (intro conjI impI)
  assume "generateWinningColor base clk
       \<lparr>co_roundId = rid, co_lossBias = lb, co_customSeed = cs,
        co_recentWinners = Some (pre @ [c, c, c])\<rparr> = Inr r \<and> isWinRound r"
  then show "winningColor r \<noteq> c"
    by (auto simp: generateWinningColor_def Let_def case_prod_beta
          split: if_splits sum.splits option.splits dest: selectWinningColor_breaks_streak)
next
  define st where "st = snd (prng (xor32 (case cs of Some s \<Rightarrow> s | None \<Rightarrow> base) (hashString i)))"
  assume a: "\<not> jlt b (Fin 0) \<and> \<not> jgt b (Fin 1)
       \<and> \<not> jlt (Fin (fst (prng (xor32 (case cs of Some s \<Rightarrow> s | None \<Rightarrow> base) (hashString i))))) b"
  obtain x where x: "selectWinningColor st (pre @ [c, c, c]) = Inr (Some x)"
    using selectWinningColor_returns by blast
  then obtain props where p: "map_of COLOR_PROPERTIES x = Some props"
    using selectWinningColor_configured configured_lookup by blast
  have "x \<noteq> c" using x by (rule selectWinningColor_breaks_streak)
  then show "\<exists>r'. generateWinningColor base clk
                 \<lparr>co_roundId = Some i, co_lossBias = Some b, co_customSeed = cs,
                  co_recentWinners = Some (pre @ [c, c, c])\<rparr> = Inr r'
               \<and> isWinRound r' \<and> winningColor r' \<noteq> c"
    using a x p by (simp add: generateWinningColor_def Let_def case_prod_beta st_def)
qed

theorem streak_color_excluded_witness:
  "generateWinningColor 0 clock_a (r1_color_options 0 (Some 0) [''red'', ''red'', ''red''])
     = Inr \<lparr>winningColor = ''green'', colorName = ''Green'', hexColor = ''#10B981'',
            payoutMultiplier = 3, isWinRound = True, isPlatformWin = False, color_seed = 3583,
            color_generatedAt = 1700000000001,
            color_metadata = \<lparr>cm_roundId = ''r1'', cm_lossBias = Fin 0,
                              cm_probability = 35 / 100\<rparr>\<rparr>
   \<and> ''green'' \<noteq> ''red''
   \<and> \<not> jlt (Fin 0) (Fin 0) \<and> \<not> jgt (Fin 0) (Fin 1)
   \<and> \<not> jlt (Fin (fst (prng (xor32 0 (hashString ''r1''))))) (Fin 0)
   \<and> (\<exists>r'. generateWinningColor 0 clock_a (r1_color_options 0 (Some 0) [''red'', ''red'', ''red''])
              = Inr r' \<and> isWinRound r' \<and> winningColor r' \<noteq> ''red'')"
  using streak_color_excluded
          [of 0 clock_a "Some ''r1''" "Some (Fin 0)" "Some 0" "[]" "''red''"
              "\<lparr>winningColor = ''green'', colorName = ''Green'', hexColor = ''#10B981'',
                payoutMultiplier = 3, isWinRound = True, isPlatformWin = False, color_seed = 3583,
                color_generatedAt = 1700000000001,
                color_metadata = \<lparr>cm_roundId = ''r1'', cm_lossBias = Fin 0,
                                  cm_probability = 35 / 100\<rparr>\<rparr>"
              "Fin 0" "''r1''"]
        green_after_red_streak
  by (simp add: r1_color_options_def jgt_def hashString_r1 seed_r1_custom0 prng_def lcg_custom0_1
        MODULUS_def)

section \<open>Settlement with a malformed wager\<close>

text \<open>
  C10, as amended. When \<open>processColorRoundPayouts\<close> meets a wager whose stake is outside
  the bounds, the error of \<open>calculateColorPayout\<close> ends the processing: the wagers before
  it are settled, the malformed wager and every wager after it are left as they were, and
  the statistics of the round, \<open>totalPayout\<close> among them, are not updated.
\<close>

theorem settlement_stops_at_malformed_wager:
  assumes "list_all well_formed pre" and "\<not> well_formed bad"
    and "map_of COLOR_PROPERTIES (cr_winningColor rnd) = Some props"
    and "bets rnd = pre @ bad # post"
  shows "\<exists>e pre'. processColorRoundPayouts now rnd = (Some e, rnd\<lparr>bets := pre' @ bad # post\<rparr>)
           \<and> length pre' = length pre \<and> list_all settled pre'"
proof -
  obtain e pre' tot' where
    s: "settle_bets now (cr_winningColor rnd) 0 (pre @ bad # post) 0 = (Some e, pre' @ bad # post, tot')"
       "length pre' = length pre" "list_all settled pre'"
    using settle_bets_stops [OF assms(1,2,3)] by blast
  then show ?thesis using assms(4) by (auto simp: processColorRoundPayouts_def)
qed


theorem settlement_stops_at_malformed_wager_witness:
  "list_all well_formed [pending_bet ''b1'' ''red'' 10]
   \<and> \<not> well_formed (pending_bet ''b2'' ''green'' 0)
   \<and> map_of COLOR_PROPERTIES
         (cr_winningColor (red_round [pending_bet ''b1'' ''red'' 10, pending_bet ''b2'' ''green'' 0,
                                      pending_bet ''b3'' ''red'' 20]))
       = Some \<lparr>cp_name = ''Red'', cp_payoutMultiplier = 2, cp_hexColor = ''#EF4444'',
               cp_probability = 40 / 100\<rparr>
   \<and> (\<exists>e pre'.
         processColorRoundPayouts (\<lambda>i. 5)
           (red_round [pending_bet ''b1'' ''red'' 10, pending_bet ''b2'' ''green'' 0,
                       pending_bet ''b3'' ''red'' 20])
         = (Some e,
            (red_round [pending_bet ''b1'' ''red'' 10, pending_bet ''b2'' ''green'' 0,
                        pending_bet ''b3'' ''red'' 20])
              \<lparr>bets := pre' @ pending_bet ''b2'' ''green'' 0 # [pending_bet ''b3'' ''red'' 20]\<rparr>)
         \<and> length pre' = length [pending_bet ''b1'' ''red'' 10] \<and> list_all settled pre')"
  using settlement_stops_at_malformed_wager
          [of "[pending_bet ''b1'' ''red'' 10]" "pending_bet ''b2'' ''green'' 0"
              "red_round [pending_bet ''b1'' ''red'' 10, pending_bet ''b2'' ''green'' 0,
                          pending_bet ''b3'' ''red'' 20]"
              "\<lparr>cp_name = ''Red'', cp_payoutMultiplier = 2, cp_hexColor = ''#EF4444'',
                cp_probability = 40 / 100\<rparr>"
              "[pending_bet ''b3'' ''red'' 20]" "\<lambda>i. 5"]
  by (simp add: well_formed_def pending_bet_def red_round_def COLOR_PROPERTIES_def
        MIN_BET_AMOUNT_def MAX_BET_AMOUNT_def)

text \<open>The claim as written fails: with a stake of 0 in front, the wager behind it is not
  settled and the malformed wager is not marked; the round comes back unchanged with the
  error.\<close>

theorem malformed_wager_aborts_settlement:
  "processColorRoundPayouts (\<lambda>i. 5)
     (red_round [pending_bet ''b2'' ''green'' 0, pending_bet ''b3'' ''red'' 20])
   = (Some (Error ''Bet amount must be at least 1''),
      red_round [pending_bet ''b2'' ''green'' 0, pending_bet ''b3'' ''red'' 20])
   \<and> \<not> settled (pending_bet ''b3'' ''red'' 20)
   \<and> cb_result (pending_bet ''b2'' ''green'' 0) = None"
  by (simp add: processColorRoundPayouts_def red_round_def pending_bet_def calculateColorPayout_def
        MIN_BET_AMOUNT_def settled_def Let_def)

section \<open>Bounds of the outcomes\<close>

text \<open>
  C2, as amended. For a loss bias in [0, 1], a cap \<open>maxWinMultiplier\<close> of at least 1 and a
  generator seed \<open>baseSeed ^ seedHash\<close> that is not negative, \<open>generateCrashMultiplier\<close>
  returns a multiplier in [1.1, 2.0] for a loss round, whatever the cap, and a multiplier
  between 1.0 and the cap rounded to 4 decimals for a win round; \<open>generateWinningColor\<close>
  returns a result, and the winning colour of every result it returns is red, green or
  violet.
\<close>

theorem outcome_bounds:
  assumes "0 \<le> b" and "b \<le> 1" and "1 \<le> M"
    and "0 \<le> xor32 (case cs of Some s \<Rightarrow> s | None \<Rightarrow> SEED) (hashString i)"
    and "0 \<le> xor32 (case ccs of Some s \<Rightarrow> s | None \<Rightarrow> base) (hashString ci)"
  shows "(\<exists>r c. generateCrashMultiplier clk
                  \<lparr>opt_lossBias = Some (Fin b), opt_maxWinMultiplier = Some (Fin M),
                   opt_roundId = Some i, opt_customSeed = cs\<rparr> = Inr r
                \<and> crashMultiplier r = Fin c
                \<and> (if isLossRound r then roundType r = ''loss'' \<and> 11 / 10 \<le> c \<and> c \<le> 2
                    else roundType r = ''win'' \<and> 1 \<le> c \<and> c \<le> toFixed 4 M))
         \<and> (\<exists>r. generateWinningColor base clk
                   \<lparr>co_roundId = Some ci, co_lossBias = Some (Fin b), co_customSeed = ccs,
                    co_recentWinners = Some ws\<rparr> = Inr r
                 \<and> winningColor r \<in> {''red'', ''green'', ''violet''})
         \<and> (generateWinningColor base clk copts = Inr r' \<longrightarrow>
               winningColor r' \<in> {''red'', ''green'', ''violet''})"
proof -
  have keys: "set (map fst COLOR_PROPERTIES) = {''red'', ''green'', ''violet''}"
    by (simp add: COLOR_PROPERTIES_def)
  obtain r c raw st where
    "generateCrashMultiplier clk
             \<lparr>opt_lossBias = Some (Fin b), opt_maxWinMultiplier = Some (Fin M),
              opt_roundId = Some i, opt_customSeed = cs\<rparr> = Inr r"
    "crashMultiplier r = Fin c"
    "if isLossRound r then roundType r = ''loss'' \<and> 11 / 10 \<le> c \<and> c \<le> 2
               else roundType r = ''win'' \<and> 1 \<le> c \<and> c \<le> toFixed 4 M \<and> (M \<le> 2 \<longrightarrow> raw = M)"
    using generateCrashMultiplier_shape [OF assms(1,2,3,4), of clk] by blast
  then have crash: "\<exists>r c. generateCrashMultiplier clk
                  \<lparr>opt_lossBias = Some (Fin b), opt_maxWinMultiplier = Some (Fin M),
                   opt_roundId = Some i, opt_customSeed = cs\<rparr> = Inr r
                \<and> crashMultiplier r = Fin c
                \<and> (if isLossRound r then roundType r = ''loss'' \<and> 11 / 10 \<le> c \<and> c \<le> 2
                    else roundType r = ''win'' \<and> 1 \<le> c \<and> c \<le> toFixed 4 M)"
    by (intro exI [of _ r] exI [of _ c]) (simp split: if_splits)
  obtain rc where rc: "generateWinningColor base clk
                   \<lparr>co_roundId = Some ci, co_lossBias = Some (Fin b), co_customSeed = ccs,
                    co_recentWinners = Some ws\<rparr> = Inr rc"
    using generateWinningColor_returns [OF assms(1,2,5)] by blast
  then have "winningColor rc \<in> {''red'', ''green'', ''violet''}"
    using generateWinningColor_configured keys by blast
  then have color: "\<exists>r. generateWinningColor base clk
                   \<lparr>co_roundId = Some ci, co_lossBias = Some (Fin b), co_customSeed = ccs,
                    co_recentWinners = Some ws\<rparr> = Inr r
                 \<and> winningColor r \<in> {''red'', ''green'', ''violet''}"
    using rc by blast
  have any: "generateWinningColor base clk copts = Inr r' \<longrightarrow>
               winningColor r' \<in> {''red'', ''green'', ''violet''}"
    using generateWinningColor_configured keys by blast
  show ?thesis using crash color any by (intro conjI)
qed


theorem outcome_bounds_witness:
  "(0 :: real) \<le> 8 / 10 \<and> (8 / 10 :: real) \<le> 1 \<and> (1 :: real) \<le> 100
   \<and> 0 \<le> xor32 (case Some 0 of Some s \<Rightarrow> s | None \<Rightarrow> SEED) (hashString ''r1'')
   \<and> (\<exists>r c. generateCrashMultiplier clock_a (r1_options (8 / 10) 100 (Some 0)) = Inr r
          \<and> crashMultiplier r = Fin c
          \<and> (if isLossRound r then roundType r = ''loss'' \<and> 11 / 10 \<le> c \<and> c \<le> 2
              else roundType r = ''win'' \<and> 1 \<le> c \<and> c \<le> toFixed 4 100))
   \<and> (\<exists>r. generateWinningColor 0 clock_a (r1_color_options (8 / 10) (Some 0) []) = Inr r
          \<and> winningColor r \<in> {''red'', ''green'', ''violet''})
   \<and> generateWinningColor 0 clock_a (r1_color_options 0 (Some 0) [''red'', ''red'', ''red''])
       = Inr \<lparr>winningColor = ''green'', colorName = ''Green'', hexColor = ''#10B981'',
          payoutMultiplier = 3, isWinRound = True, isPlatformWin = False, color_seed = 3583,
          color_generatedAt = 1700000000001,
          color_metadata = \<lparr>cm_roundId = ''r1'', cm_lossBias = Fin 0,
                            cm_probability = 35 / 100\<rparr>\<rparr>
   \<and> winningColor \<lparr>winningColor = ''green'', colorName = ''Green'', hexColor = ''#10B981'',
          payoutMultiplier = 3, isWinRound = True, isPlatformWin = False, color_seed = 3583,
          color_generatedAt = 1700000000001,
          color_metadata = \<lparr>cm_roundId = ''r1'', cm_lossBias = Fin 0,
                            cm_probability = 35 / 100\<rparr>\<rparr> \<in> {''red'', ''green'', ''violet''}"
  using outcome_bounds
          [where b = "8 / 10" and M = 100 and cs = "Some 0" and i = "''r1''" and ccs = "Some 0"
             and base = 0 and ci = "''r1''" and clk = clock_a and ws = "[]"
             and copts = "r1_color_options 0 (Some 0) [''red'', ''red'', ''red'']"
             and r' = "\<lparr>winningColor = ''green'', colorName = ''Green'', hexColor = ''#10B981'',
          payoutMultiplier = 3, isWinRound = True, isPlatformWin = False, color_seed = 3583,
          color_generatedAt = 1700000000001,
          color_metadata = \<lparr>cm_roundId = ''r1'', cm_lossBias = Fin 0,
                            cm_probability = 35 / 100\<rparr>\<rparr>"]
        green_after_red_streak
  by (simp add: r1_options_def r1_color_options_def hashString_r1 seed_r1_custom0)

text \<open>The claim as written fails on the cap: with bias 1 and cap 1.0 round \<open>r1\<close> (custom
  seed 0) is a loss round, whose multiplier is at least 1.1.\<close>

theorem loss_multiplier_exceeds_cap:
  "map_sum id (\<lambda>r. (roundType r, jgt (crashMultiplier r) (Fin 1)))
     (generateCrashMultiplier clock_a (r1_options 1 1 (Some 0))) = Inr (''loss'', True)"
proof -
  obtain m s2 where m: "generateLossMultiplier 377739212 = (Fin m, s2)" "11 / 10 \<le> m"
    using generateLossMultiplier_range [of 377739212] by auto
  have "toFixed 4 (11 / 10) \<le> toFixed 4 m" using m(2) by (rule toFixed_mono)
  then have "11 / 10 \<le> toFixed 4 m" by (simp only: toFixed4_eleven_tenths)
  then have "1 < toFixed 4 m" by simp
  then show ?thesis
    using m(1)
    by (simp add: generateCrashMultiplier_def r1_options_def jgt_def hashString_r1 seed_r1_custom0
          prng_def lcg_custom0_1 MODULUS_def parseFloat_toFixed_def Let_def)
qed

section \<open>The end of the reveal series\<close>

text \<open>The last sample of a curve is the crash multiplier the builder was given, and the
  multiplier a result reports is that sample rounded to 4 decimals; the last entry of a
  colour timeline shows the winning colour.\<close>

lemma last_sample_rounds_to_crashMultiplier:
  "generateCrashMultiplier clk opts = Inr r \<Longrightarrow>
   crashMultiplier r = parseFloat_toFixed 4 (multiplier (last (crashCurve r)))"
  by (auto simp: generateCrashMultiplier_def Let_def case_prod_beta generateCrashCurve_last
        split: if_splits)

lemma generateColorTimeline_last:
  assumes "generateColorTimeline wc d s = Inr tline" and "tline \<noteq> []"
  shows "tl_color (last tline) = wc"
  using assms
  by (auto simp: generateColorTimeline_def Let_def last_list_update
        split: sum.splits prod.splits if_splits option.splits)

text \<open>
  C3 (the code departs from it). \<open>generateCrashMultiplier\<close> hands the unrounded multiplier
  to the curve builder and reports the rounded one, so the last sample differs from the
  reported \<open>crashMultiplier\<close> whenever the multiplier has more than 4 decimals: for round
  \<open>r1\<close> with bias 0, cap 1.00006 and custom seed 0 the result reports 1.0001 and its curve
  ends on 1.00006.
\<close>

theorem last_sample_is_unrounded:
  "map_sum id (\<lambda>r. (crashMultiplier r, multiplier (last (crashCurve r))))
     (generateCrashMultiplier clock_a (r1_options 0 (100006 / 100000) (Some 0)))
     = Inr (Fin (10001 / 10000), Fin (100006 / 100000))"
  by (simp add: generateCrashMultiplier_def r1_options_def jgt_def hashString_r1 seed_r1_custom0
        prng_def lcg_custom0_1 MODULUS_def win_multiplier_r1_small_cap generateCrashCurve_last
        parseFloat_toFixed_def toFixed_def Let_def)

section \<open>Monotonicity of the curve\<close>





end
